theory Spec2Isabelle
  imports Main
begin

section \<open>Python values and string helpers\<close>

text \<open>
  The adapter is Python: exceptions are values of \<open>exn\<close> and a call that may raise
  returns \<open>exn + 'a\<close> (\<open>Inl\<close> the exception). Every exception of the model
  derives from \<open>Exception\<close>, so \<open>except Exception\<close> catches all of them. A string
  is the list of its code points, each below 256.
\<close>

datatype exn =
    ResourceNotFound
  | ConfigurationError
  | RuntimeError
  | ValueError
  | KeyError
  | IndexError
  | TypeError
  | AttributeError
  | OSError
  | ServiceError nat

datatype pyval =
    PNone
  | PBool bool
  | PInt int
  | PStr string
  | PDict "(string \<times> pyval) list"

type_synonym pydict = "(string \<times> pyval) list"

text \<open>Python truth value testing, as used by \<open>if not self.config['vcpus']\<close>.\<close>

fun truthy :: "pyval \<Rightarrow> bool" where
  "truthy PNone = False"
| "truthy (PBool b) = b"
| "truthy (PInt n) = (n \<noteq> 0)"
| "truthy (PStr s) = (s \<noteq> [])"
| "truthy (PDict d) = (d \<noteq> [])"

text \<open>\<open>d[k] = v\<close> keeps the position of an existing key and appends a new one.\<close>

fun dict_set :: "string \<Rightarrow> pyval \<Rightarrow> pydict \<Rightarrow> pydict" where
  "dict_set k v [] = [(k, v)]"
| "dict_set k v ((k', v') # d) =
     (if k = k' then (k, v) # d else (k', v') # dict_set k v d)"

definition dict_get :: "pydict \<Rightarrow> string \<Rightarrow> pyval option" where
  "dict_get d k = map_of d k"

text \<open>\<open>d.update(other)\<close>: the items of \<open>other\<close> are stored in their order.\<close>

definition dict_update :: "pydict \<Rightarrow> pydict \<Rightarrow> pydict" where
  "dict_update d other = foldl (\<lambda>acc kv. dict_set (fst kv) (snd kv) acc) d other"

text \<open>\<open>s.split(sep)\<close> for a one-character separator: never the empty list.\<close>

fun py_split :: "char \<Rightarrow> string \<Rightarrow> string list" where
  "py_split sep [] = [Nil]"
| "py_split sep (c # cs) =
     (if c = sep then [] # py_split sep cs
      else (case py_split sep cs of
              [] \<Rightarrow> [c] # []
            | p # ps \<Rightarrow> (c # p) # ps))"

text \<open>\<open>s.split(sep, 1)\<close>: one or two pieces.\<close>

definition py_split1 :: "char \<Rightarrow> string \<Rightarrow> string list" where
  "py_split1 sep s =
     (case dropWhile (\<lambda>c. c \<noteq> sep) s of
        [] \<Rightarrow> [s]
      | _ # rest \<Rightarrow> [takeWhile (\<lambda>c. c \<noteq> sep) s, rest])"

fun py_join :: "string \<Rightarrow> string list \<Rightarrow> string" where
  "py_join sep [] = []"
| "py_join sep [x] = x"
| "py_join sep (x # y # r) = x @ sep @ py_join sep (y # r)"

definition str_startswith :: "string \<Rightarrow> string \<Rightarrow> bool" where
  "str_startswith s p = (take (length p) s = p)"

text \<open>\<open>os.path.join(a, b)\<close> for two components.\<close>

definition path_join :: "string \<Rightarrow> string \<Rightarrow> string" where
  "path_join a b =
     (if str_startswith b ''/'' then b
      else if a = [] \<or> last a = CHR ''/'' then a @ b
      else a @ ''/'' @ b)"

text \<open>
  Whitespace of \<open>str.strip()\<close> among the code points below 256: 0x09 to 0x0D, 0x1C
  to 0x1F, the blank, 0x85 and 0xA0.
\<close>

definition str_isspace :: "char \<Rightarrow> bool" where
  "str_isspace c =
     (let n = (of_char c :: nat)
      in (9 \<le> n \<and> n \<le> 13) \<or> (28 \<le> n \<and> n \<le> 32) \<or> n = 133 \<or> n = 160)"

definition py_strip :: "string \<Rightarrow> string" where
  "py_strip s = rev (dropWhile str_isspace (rev (dropWhile str_isspace s)))"

subsection \<open>The builtin \<open>int(s)\<close> on a string, base 10\<close>

text \<open>
  \<open>int\<close> first replaces every whitespace code point from 127 on by a blank (below
  256 these are 0x85 and 0xA0; there is no decimal digit from 127 to 255). It then
  skips leading and trailing whitespace (0x09 to 0x0D and the blank), reads an
  optional sign and then decimal digits, where single underscores may separate digits;
  anything else raises \<open>ValueError\<close>. So the whitespace that \<open>int\<close> skips is:
\<close>

definition int_isspace :: "char \<Rightarrow> bool" where
  "int_isspace c =
     (let n = (of_char c :: nat) in (9 \<le> n \<and> n \<le> 13) \<or> n = 32 \<or> n = 133 \<or> n = 160)"

definition is_digit :: "char \<Rightarrow> bool" where
  "is_digit c = (let n = (of_char c :: nat) in 48 \<le> n \<and> n \<le> 57)"

definition digit_val :: "char \<Rightarrow> int" where
  "digit_val c = int (of_char c) - 48"

text \<open>The digits part: a digit first, every underscore followed by a digit.\<close>

fun valid_digits :: "string \<Rightarrow> bool" where
  "valid_digits [] = False"
| "valid_digits [c] = is_digit c"
| "valid_digits (c # d # r) =
     (if is_digit c
      then (if d = CHR ''_'' then valid_digits r else valid_digits (d # r))
      else False)"

definition dec_value :: "string \<Rightarrow> int" where
  "dec_value ds = foldl (\<lambda>a c. 10 * a + digit_val c) 0 ds"

definition int_strip :: "string \<Rightarrow> string" where
  "int_strip s = rev (dropWhile int_isspace (rev (dropWhile int_isspace s)))"

text \<open>
  An interpreter with a limit for the conversion between strings and integers
  (\<open>sys.get_int_max_str_digits()\<close>, 4300 unless configured, 0 for none) raises
  \<open>ValueError\<close> for more than 640 digits when they are more than the limit; an
  interpreter without the limit behaves as one with the limit 0.
\<close>

definition over_limit :: "nat \<Rightarrow> nat \<Rightarrow> bool" where
  "over_limit max_str_digits n = (640 < n \<and> 0 < max_str_digits \<and> max_str_digits < n)"

definition py_int :: "nat \<Rightarrow> string \<Rightarrow> exn + int" where
  "py_int max_str_digits s =
     (let t = int_strip s;
          neg = (t \<noteq> [] \<and> hd t = CHR ''-'');
          body = (if t \<noteq> [] \<and> (hd t = CHR ''-'' \<or> hd t = CHR ''+'') then tl t else t);
          ds = filter (\<lambda>c. c \<noteq> CHR ''_'') body
      in if valid_digits body \<and> \<not> over_limit max_str_digits (length ds)
         then Inr ((if neg then - 1 else 1) * dec_value ds)
         else Inl ValueError)"

section \<open>Data model\<close>

record hardware_profile =
  hp_name :: string
  hp_nameFormat :: string

record software_profile =
  sp_name :: string

record nic =
  nic_ip :: string
  nic_boot :: bool

text \<open>
  A \<open>Node\<close> object. \<open>node_state\<close> is \<open>None\<close> until the adapter assigns it;
  \<open>node_softwareprofile\<close> is \<open>None\<close> when \<open>start\<close> is called without a software
  profile.
\<close>

record node =
  node_name :: string
  node_state :: "string option"
  node_softwareprofile :: "software_profile option"
  node_hardwareprofile :: hardware_profile
  node_isIdle :: bool
  node_addHostSession :: string
  node_nics :: "nic list"

text \<open>What the provider returns for an instance, a VNIC attachment and a VNIC.\<close>

record oci_instance =
  inst_id :: string
  inst_lifecycle_state :: string
  inst_display_name :: string
  inst_compartment_id :: string

record vnic_attachment =
  va_vnic_id :: string
  va_instance_id :: string
  va_lifecycle_state :: string

record vnic =
  vnic_private_ip :: string
  vnic_public_ip :: string

text \<open>
  \<open>node_spec\<close> is the dict built by \<open>__add_nodes\<close>; its \<open>db_session\<close> entry is the
  session held in the world below. \<open>node_dict\<close> is the per-unit dict with the optional
  keys \<open>'node'\<close> (a reference to a \<open>Node\<close> object) and \<open>'instance_ocid'\<close>.
\<close>

record node_spec =
  db_hardware_profile :: hardware_profile
  db_software_profile :: "software_profile option"
  configDict :: pydict

record node_dict =
  nd_node :: "nat option"
  nd_instance_ocid :: "string option"

datatype level = DEBUG | INFO | WARNING | ERROR

datatype logarg = AStr string | AInt int | AVal pyval | AExn exn

type_synonym log_entry = "level \<times> string \<times> logarg list"

text \<open>
  Every call that leaves the adapter is recorded, in order: the registry session, the
  provider clients, the instance cache, the host hooks, sleeps (in milliseconds) and
  invocations of the waiter's callback.
\<close>

datatype event =
    EvDbAdd nat
  | EvDbDelete nat
  | EvDbCommit
  | EvGenerateNodeName string string
  | EvLaunchInstance pydict
  | EvGetInstance string
  | EvTerminateInstance string
  | EvListVnicAttachments string
  | EvGetVnic string
  | EvSleep nat
  | EvCallback string string
  | EvCacheGet string
  | EvCacheSet string pydict
  | EvCacheDelete string
  | EvPreAddHost string string string string
  | EvDeleteNodeCleanup node
  | EvClearSessionNodes "nat list"

text \<open>
  The state the adapter works on. \<open>Node\<close> objects live in \<open>heap\<close>, named by
  references; \<open>session_new\<close> and \<open>session_deleted\<close> are what the database session has
  staged, \<open>registry\<close> is the committed node table. \<open>clock\<close> counts the calls made to
  the outside so far; the outside answers as a function of it.
\<close>

record world =
  clock :: nat
  heap :: "nat \<rightharpoonup> node"
  next_ref :: nat
  session_new :: "nat list"
  session_deleted :: "nat list"
  registry :: "nat \<rightharpoonup> node"
  instance_cache :: "string \<rightharpoonup> pydict"
  log :: "log_entry list"
  trace :: "event list"
  adapter_vcpus :: pyval
  adapter_installer_ip :: "string option"

text \<open>
  The collaborators the adapter calls but does not own: the host's configuration and
  file system, the naming policy and the provider clients. Each answer may depend on
  the time of the call. User-data formatting and base64 encoding are left abstract.
  \<open>int_max_str_digits\<close> is the interpreter's limit for \<open>int\<close>; \<open>schedule\<close> is the
  order in which gevent runs the units of a request.
\<close>

record env =
  kit_config_base :: string
  home_dir :: string
  addHostSession :: string
  private_dns_zone :: string
  installer_public_hostname :: string
  installer_public_ipaddress :: string
  base_adapter_config :: "nat \<Rightarrow> exn + pydict"
  fs_exists :: "nat \<Rightarrow> string \<Rightarrow> bool"
  fs_isfile :: "nat \<Rightarrow> string \<Rightarrow> bool"
  fs_read :: "nat \<Rightarrow> string \<Rightarrow> exn + string"
  fs_readlines :: "nat \<Rightarrow> string \<Rightarrow> exn + string list"
  user_data_settings :: "pydict \<Rightarrow> string"
  b64encode :: "string \<Rightarrow> string"
  generate_node_name :: "nat \<Rightarrow> string \<Rightarrow> string \<Rightarrow> exn + string"
  launch_instance :: "nat \<Rightarrow> pydict \<Rightarrow> exn + string"
  get_instance :: "nat \<Rightarrow> string \<Rightarrow> exn + oci_instance"
  terminate_instance :: "nat \<Rightarrow> string \<Rightarrow> exn + unit"
  list_vnic_attachments :: "nat \<Rightarrow> string \<Rightarrow> exn + vnic_attachment list"
  get_vnic :: "nat \<Rightarrow> string \<Rightarrow> exn + vnic option"
  get_random_sleep_time :: "nat \<Rightarrow> nat \<Rightarrow> nat"
  int_max_str_digits :: nat
  schedule :: "nat \<Rightarrow> nat"

definition tick :: "world \<Rightarrow> world" where
  "tick w = w\<lparr>clock := Suc (clock w)\<rparr>"

definition emit :: "event \<Rightarrow> world \<Rightarrow> world" where
  "emit e w = w\<lparr>trace := trace w @ [e]\<rparr>"

definition logger :: "level \<Rightarrow> string \<Rightarrow> logarg list \<Rightarrow> world \<Rightarrow> world" where
  "logger lv msg args w = w\<lparr>log := log w @ [(lv, msg, args)]\<rparr>"

section \<open>OciSession\<close>

text \<open>\<open>OciSession._get_ssh_key\<close>: the stripped public key, or \<open>None\<close> without the file.\<close>

definition get_ssh_key :: "env \<Rightarrow> world \<Rightarrow> (exn + pyval) \<times> world" where
  "get_ssh_key env w =
     (let pub_key_path = path_join (home_dir env) ''.ssh/id_rsa.pub'' in
      if fs_isfile env (clock w) pub_key_path
      then (case fs_read env (Suc (clock w)) pub_key_path of
              Inl e \<Rightarrow> (Inl e, tick (tick w))
            | Inr s \<Rightarrow> (Inr (PStr (py_strip s)), tick (tick w)))
      else (Inr PNone, tick w))"

text \<open>The defaults of \<open>OciSession.__init__\<close>, in the order of the dict literal.\<close>

definition default_config :: "env \<Rightarrow> pyval \<Rightarrow> pydict" where
  "default_config env ssh_key =
     [(''availability_domain'', PNone),
      (''compartment_id'', PNone),
      (''shape'', PStr ''VM.Standard1.1''),
      (''vcpus'', PNone),
      (''subnet_id'', PNone),
      (''image_id'', PNone),
      (''user_data_script_template'',
         PStr (path_join (kit_config_base env) ''oci_bootstrap.tmpl'')),
      (''override_dns_domain'', PBool False),
      (''dns_options'', PNone),
      (''dns_search'', PNone),
      (''dns_nameservers'', PNone),
      (''metadata'', PDict [(''ssh_authorized_keys'', ssh_key)])]"

text \<open>The defaults merged with the overrides (an empty dict is falsy and skipped).\<close>

definition merged_config :: "env \<Rightarrow> pyval \<Rightarrow> pydict \<Rightarrow> pydict" where
  "merged_config env ssh_key override_config =
     (if override_config \<noteq> []
      then dict_update (default_config env ssh_key) override_config
      else default_config env ssh_key)"

text \<open>\<open>OciSession.cores_from_shape\<close>: \<open>int(self.config['shape'].split('.')[-1])\<close>.\<close>

definition cores_from_shape :: "env \<Rightarrow> pydict \<Rightarrow> exn + int" where
  "cores_from_shape env config =
     (case dict_get config ''shape'' of
        None \<Rightarrow> Inl KeyError
      | Some (PStr s) \<Rightarrow> py_int (int_max_str_digits env) (last (py_split CHR ''.'' s))
      | Some _ \<Rightarrow> Inl AttributeError)"

text \<open>
  \<open>OciSession.__init__\<close>; the session is its \<open>config\<close> dict. The override is a dict,
  so the \<open>isinstance\<close> test holds.
\<close>

definition OciSession_init :: "env \<Rightarrow> pydict \<Rightarrow> world \<Rightarrow> (exn + pydict) \<times> world" where
  "OciSession_init env override_config w =
     (case get_ssh_key env w of
        (Inl e, w1) \<Rightarrow> (Inl e, w1)
      | (Inr ssh_key, w1) \<Rightarrow>
          (let config = merged_config env ssh_key override_config in
           case dict_get config ''vcpus'' of
             None \<Rightarrow> (Inl KeyError, w1)
           | Some v \<Rightarrow>
               if \<not> truthy v
               then (case cores_from_shape env config of
                       Inl e \<Rightarrow> (Inl e, w1)
                     | Inr n \<Rightarrow> (Inr (dict_set ''vcpus'' (PInt n) config), w1))
               else (Inr config, w1)))"

text \<open>\<open>OciSession.launch_config\<close>: the launch keys of the config, as attributes.\<close>

definition launch_keys :: "string list" where
  "launch_keys = [''availability_domain'', ''compartment_id'', ''shape'', ''subnet_id'',
                  ''image_id'', ''metadata'']"

definition launch_config :: "pydict \<Rightarrow> pydict" where
  "launch_config config = filter (\<lambda>kv. fst kv \<in> set launch_keys) config"

section \<open>Collaborators\<close>

subsection \<open>The registry session\<close>

text \<open>
  Modelled from the spec: the registry gateway (\<open>add\<close>, \<open>delete\<close>, \<open>commit\<close> on the
  database session handed to \<open>start\<close>) is not part of this repository. \<open>add\<close> and
  \<open>delete\<close> stage an object; \<open>commit\<close> writes the staged objects and the current
  attributes of every object already in the table, and removes the deleted ones.
\<close>

definition db_add :: "nat \<Rightarrow> world \<Rightarrow> world" where
  "db_add r w = emit (EvDbAdd r) (w\<lparr>session_new := session_new w @ [r]\<rparr>)"

definition db_delete :: "nat \<Rightarrow> world \<Rightarrow> world" where
  "db_delete r w = emit (EvDbDelete r) (w\<lparr>session_deleted := session_deleted w @ [r]\<rparr>)"

definition flush :: "world \<Rightarrow> nat \<rightharpoonup> node" where
  "flush w = (\<lambda>r. if r \<in> set (session_deleted w) then None
                  else if r \<in> set (session_new w) \<or> registry w r \<noteq> None then heap w r
                  else None)"

definition db_commit :: "world \<Rightarrow> world" where
  "db_commit w =
     emit EvDbCommit (w\<lparr>registry := flush w, session_new := [], session_deleted := []\<rparr>)"

text \<open>Assigning attributes of the \<open>Node\<close> object behind a reference.\<close>

definition node_assign :: "nat \<Rightarrow> (node \<Rightarrow> node) \<Rightarrow> world \<Rightarrow> world" where
  "node_assign r f w = w\<lparr>heap := (heap w)(r := map_option f (heap w r))\<rparr>"

subsection \<open>The instance cache and the host hooks\<close>

text \<open>
  Modelled from the spec: \<open>instanceCacheGet\<close>, \<open>instanceCacheSet\<close> and
  \<open>instanceCacheDelete\<close> belong to the adapter base class, which is not part of this
  repository: a key-value store by node name, where a lookup of an absent name raises
  \<open>ResourceNotFound\<close>.
\<close>

definition instanceCacheGet :: "string \<Rightarrow> world \<Rightarrow> (exn + pydict) \<times> world" where
  "instanceCacheGet name w =
     (case instance_cache w name of
        None \<Rightarrow> (Inl ResourceNotFound, emit (EvCacheGet name) w)
      | Some entry \<Rightarrow> (Inr entry, emit (EvCacheGet name) w))"

definition instanceCacheSet :: "string \<Rightarrow> pydict \<Rightarrow> world \<Rightarrow> world" where
  "instanceCacheSet name entry w =
     emit (EvCacheSet name entry) (w\<lparr>instance_cache := (instance_cache w)(name \<mapsto> entry)\<rparr>)"

definition instanceCacheDelete :: "string \<Rightarrow> world \<Rightarrow> world" where
  "instanceCacheDelete name w =
     emit (EvCacheDelete name) (w\<lparr>instance_cache := (instance_cache w)(name := None)\<rparr>)"

text \<open>
  Modelled from the spec: the host hooks \<open>_pre_add_host\<close>, \<open>deleteNodeCleanup\<close> and
  \<open>clear_session_nodes\<close> are not part of this repository; only the call is recorded.
\<close>

definition pre_add_host :: "string \<Rightarrow> string \<Rightarrow> string \<Rightarrow> string \<Rightarrow> world \<Rightarrow> world" where
  "pre_add_host name hwp swp ip w = emit (EvPreAddHost name hwp swp ip) w"

definition deleteNodeCleanup :: "node \<Rightarrow> world \<Rightarrow> world" where
  "deleteNodeCleanup n w = emit (EvDeleteNodeCleanup n) w"

definition clear_session_nodes :: "nat list \<Rightarrow> world \<Rightarrow> world" where
  "clear_session_nodes nodes w = emit (EvClearSessionNodes nodes) w"

subsection \<open>Naming policy and provider clients\<close>

definition addHostApi_generate_node_name ::
  "env \<Rightarrow> string \<Rightarrow> string \<Rightarrow> world \<Rightarrow> (exn + string) \<times> world" where
  "addHostApi_generate_node_name env name_format dns_zone w =
     (generate_node_name env (clock w) name_format dns_zone,
      tick (emit (EvGenerateNodeName name_format dns_zone) w))"

definition client_launch_instance :: "env \<Rightarrow> pydict \<Rightarrow> world \<Rightarrow> (exn + string) \<times> world" where
  "client_launch_instance env cfg w =
     (launch_instance env (clock w) cfg, tick (emit (EvLaunchInstance cfg) w))"

definition client_get_instance ::
  "env \<Rightarrow> string \<Rightarrow> world \<Rightarrow> (exn + oci_instance) \<times> world" where
  "client_get_instance env ocid w =
     (get_instance env (clock w) ocid, tick (emit (EvGetInstance ocid) w))"

definition client_terminate_instance ::
  "env \<Rightarrow> string \<Rightarrow> world \<Rightarrow> (exn + unit) \<times> world" where
  "client_terminate_instance env ocid w =
     (terminate_instance env (clock w) ocid, tick (emit (EvTerminateInstance ocid) w))"

definition client_list_vnic_attachments ::
  "env \<Rightarrow> string \<Rightarrow> world \<Rightarrow> (exn + vnic_attachment list) \<times> world" where
  "client_list_vnic_attachments env compartment_id w =
     (list_vnic_attachments env (clock w) compartment_id,
      tick (emit (EvListVnicAttachments compartment_id) w))"

definition net_client_get_vnic ::
  "env \<Rightarrow> string \<Rightarrow> world \<Rightarrow> (exn + vnic option) \<times> world" where
  "net_client_get_vnic env vnic_id w =
     (get_vnic env (clock w) vnic_id, tick (emit (EvGetVnic vnic_id) w))"

definition gevent_sleep :: "nat \<Rightarrow> world \<Rightarrow> world" where
  "gevent_sleep ms w = emit (EvSleep ms) w"

section \<open>The state waiter\<close>

text \<open>
  A callback of the waiter receives the instance id and the reported state and writes
  to the log; its invocation is recorded. \<open>if callback:\<close> is the test for \<open>None\<close>.
\<close>

type_synonym callback = "string \<Rightarrow> string \<Rightarrow> log_entry list \<Rightarrow> log_entry list"

definition invoke_callback :: "callback option \<Rightarrow> string \<Rightarrow> string \<Rightarrow> world \<Rightarrow> world" where
  "invoke_callback callback instance_ocid st w =
     (case callback of
        None \<Rightarrow> w
      | Some f \<Rightarrow> (emit (EvCallback instance_ocid st) w)\<lparr>log := f instance_ocid st (log w)\<rparr>)"

text \<open>
  The loop of \<open>_wait_for_instance_state\<close>, \<open>for nRetries in itertools.count(0)\<close>. It
  has no bound, so it is a partial function: \<open>None\<close> is a wait that never returns.
\<close>

partial_function (option) wait_loop ::
  "env \<Rightarrow> string \<Rightarrow> string \<Rightarrow> callback option \<Rightarrow> nat \<Rightarrow> world
   \<Rightarrow> ((exn + unit) \<times> world) option" where
  "wait_loop env instance_ocid state callback nRetries w =
     (case client_get_instance env instance_ocid w of
        (Inl e, w1) \<Rightarrow> Some (Inl e, w1)
      | (Inr inst, w1) \<Rightarrow>
          if inst_lifecycle_state inst = state then Some (Inr (), w1)
          else wait_loop env instance_ocid state callback (Suc nRetries)
                 (gevent_sleep (get_random_sleep_time env (clock w1) nRetries)
                    (invoke_callback callback instance_ocid (inst_lifecycle_state inst) w1)))"

declare wait_loop.simps [code]

definition wait_for_instance_state ::
  "env \<Rightarrow> string \<Rightarrow> string \<Rightarrow> callback option \<Rightarrow> world \<Rightarrow> ((exn + unit) \<times> world) option" where
  "wait_for_instance_state env instance_ocid state callback w =
     wait_loop env instance_ocid state callback 0 w"

section \<open>The adapter\<close>

text \<open>
  \<open>Oracleadapter.getResourceAdapterConfig\<close>: the base class supplies the dict; a
  configured user-data template is made absolute and must exist.
\<close>

definition getResourceAdapterConfig :: "env \<Rightarrow> world \<Rightarrow> (exn + pydict) \<times> world" where
  "getResourceAdapterConfig env w =
     (case base_adapter_config env (clock w) of
        Inl e \<Rightarrow> (Inl e, tick w)
      | Inr cfg \<Rightarrow>
          (case dict_get cfg ''user_data_script_template'' of
             None \<Rightarrow> (Inr cfg, tick w)
           | Some (PStr t) \<Rightarrow>
               (let fn = (if \<not> str_startswith t ''/''
                          then path_join (kit_config_base env) t else t)
                in if \<not> fs_exists env (Suc (clock w)) fn
                   then (Inl ConfigurationError, tick (tick w))
                   else (Inr (dict_set ''user_data_script_template'' (PStr fn) cfg),
                         tick (tick w)))
           | Some _ \<Rightarrow> (Inl AttributeError, tick w)))"

text \<open>\<open>__initialize_node\<close>: a new \<open>Node\<close> object; its reference is returned.\<close>

definition initialize_node ::
  "env \<Rightarrow> string \<Rightarrow> hardware_profile \<Rightarrow> software_profile option \<Rightarrow> world \<Rightarrow> nat \<times> world" where
  "initialize_node env name hwp swp w =
     (let r = next_ref w;
          n = \<lparr>node_name = name, node_state = None, node_softwareprofile = swp,
               node_hardwareprofile = hwp, node_isIdle = False,
               node_addHostSession = addHostSession env, node_nics = []\<rparr>
      in (r, w\<lparr>heap := (heap w)(r \<mapsto> n), next_ref := Suc r\<rparr>))"

text \<open>
  \<open>__oci_pre_launch_instance\<close>. The two unpackings of \<open>split('.', 1)\<close> raise
  \<open>ValueError\<close> on a name without a dot.
\<close>

definition oci_pre_launch_instance ::
  "env \<Rightarrow> node_spec \<Rightarrow> world \<Rightarrow> (exn + node_dict) \<times> world" where
  "oci_pre_launch_instance env spec w =
     (if hp_nameFormat (db_hardware_profile spec) = ''*''
      then (Inr \<lparr>nd_node = None, nd_instance_ocid = None\<rparr>, w)
      else
        (case addHostApi_generate_node_name env
                (hp_nameFormat (db_hardware_profile spec)) (private_dns_zone env) w of
           (Inl e, w1) \<Rightarrow> (Inl e, w1)
         | (Inr generated, w1) \<Rightarrow>
             (case py_split1 CHR ''.'' generated of
                [hostname, _] \<Rightarrow>
                  (case py_split1 CHR ''.'' (installer_public_hostname env) of
                     [_, domain] \<Rightarrow>
                       (let name = hostname @ ''.'' @ domain;
                            (r, w2) = initialize_node env name (db_hardware_profile spec)
                                        (db_software_profile spec) w1;
                            w3 = node_assign r (\<lambda>n. n\<lparr>node_state := Some ''Launching''\<rparr>) w2;
                            w4 = db_add r w3;
                            w5 = db_commit w4
                        in (Inr \<lparr>nd_node = Some r, nd_instance_ocid = None\<rparr>, w5))
                   | _ \<Rightarrow> (Inl ValueError, w1))
              | _ \<Rightarrow> (Inl ValueError, w1))))"

text \<open>\<open>__get_installer_ip\<close> as \<open>__get_user_data\<close> calls it, without a hardware profile.\<close>

definition get_installer_ip :: "env \<Rightarrow> world \<Rightarrow> world" where
  "get_installer_ip env w =
     (case adapter_installer_ip w of
        None \<Rightarrow> w\<lparr>adapter_installer_ip := Some (installer_public_ipaddress env)\<rparr>
      | Some _ \<Rightarrow> w)"

text \<open>
  \<open>__get_user_data\<close> as \<open>_launch_instance\<close> calls it (\<open>node\<close> is \<open>None\<close>): the lines
  of the template, each \<open>### SETTINGS\<close> line replaced by the settings block, base64
  encoded. Opening the template may raise.
\<close>

definition get_user_data :: "env \<Rightarrow> pydict \<Rightarrow> world \<Rightarrow> (exn + string) \<times> world" where
  "get_user_data env config w =
     (case dict_get config ''user_data_script_template'' of
        None \<Rightarrow> (Inl KeyError, w)
      | Some t \<Rightarrow>
          (let w1 = logger INFO ''Using cloud-init script template [%s]'' [AVal t] w;
               w2 = get_installer_ip env w1
           in case t of
                PStr path \<Rightarrow>
                  (case fs_readlines env (clock w2) path of
                     Inl e \<Rightarrow> (Inl e, tick w2)
                   | Inr lines \<Rightarrow>
                       (Inr (b64encode env (concat (map (\<lambda>line.
                                 if str_startswith line ''### SETTINGS''
                                 then user_data_settings env config else line) lines))),
                        tick w2))
              | _ \<Rightarrow> (Inl TypeError, w2)))"

text \<open>The callback \<open>_launch_instance\<close> hands to the waiter.\<close>

definition logging_callback :: "string \<Rightarrow> callback" where
  "logging_callback instance_ocid =
     (\<lambda>inst st lg. lg @ [(DEBUG, ''state: %s; waiting...'', [AStr st, AStr instance_ocid])])"

text \<open>
  \<open>_launch_instance\<close>, in the four steps of its body. First the session and its
  user data: \<open>session.config['metadata']['user_data'] = self.__get_user_data(...)\<close>.
\<close>

definition launch_session :: "env \<Rightarrow> node_spec \<Rightarrow> world \<Rightarrow> (exn + pydict) \<times> world" where
  "launch_session env spec w =
     (case OciSession_init env (configDict spec) w of
        (Inl e, w1) \<Rightarrow> (Inl e, w1)
      | (Inr config, w1) \<Rightarrow>
          (case get_user_data env config w1 of
             (Inl e, w2) \<Rightarrow> (Inl e, w2)
           | (Inr user_data, w2) \<Rightarrow>
               (case dict_get config ''metadata'' of
                  None \<Rightarrow> (Inl KeyError, w2)
                | Some (PDict md) \<Rightarrow>
                    (Inr (dict_set ''metadata''
                            (PDict (dict_set ''user_data'' (PStr user_data) md)) config), w2)
                | Some _ \<Rightarrow> (Inl TypeError, w2))))"

text \<open>
  Then \<open>self.__vcpus\<close> and its debug message: \<open>'%d' % self.__vcpus\<close> raises
  \<open>TypeError\<close> unless the value is a number.
\<close>

definition launch_vcpus :: "env \<Rightarrow> pydict \<Rightarrow> world \<Rightarrow> (exn + unit) \<times> world" where
  "launch_vcpus env config w =
     (case dict_get config ''vcpus'' of
        None \<Rightarrow> (Inl KeyError, w)
      | Some v \<Rightarrow>
          (case (if truthy v then Inr v else map_sum id PInt (cores_from_shape env config)) of
             Inl e \<Rightarrow> (Inl e, w)
           | Inr vcpus \<Rightarrow>
               (let w1 = w\<lparr>adapter_vcpus := vcpus\<rparr> in
                case vcpus of
                  PInt _ \<Rightarrow> (Inr (), logger DEBUG ''setting vcpus to %d'' [AVal vcpus] w1)
                | PBool _ \<Rightarrow> (Inr (), logger DEBUG ''setting vcpus to %d'' [AVal vcpus] w1)
                | _ \<Rightarrow> (Inl TypeError, w1))))"

text \<open>Then the instance name, when pre-launch made a node.\<close>

definition launch_names :: "node_dict \<Rightarrow> pydict \<Rightarrow> world \<Rightarrow> (exn + pydict) \<times> world" where
  "launch_names nd lc w =
     (case nd_node nd of
        None \<Rightarrow> (Inr lc, w)
      | Some r \<Rightarrow>
          (case heap w r of
             None \<Rightarrow> (Inl AttributeError, w)
           | Some n \<Rightarrow>
               (Inr (dict_set ''hostname_label''
                       (PStr (hd (py_split1 CHR ''.'' (node_name n))))
                       (dict_set ''display_name'' (PStr (node_name n)) lc)),
                logger DEBUG ''overriding instance name [%s]'' [AStr (node_name n)] w)))"

text \<open>
  Then the provider call, the wait for \<open>RUNNING\<close> and the final lookup. The result
  carries the \<open>node_dict\<close> with its \<open>'instance_ocid'\<close> entry; \<open>None\<close> is a wait that
  never returns.
\<close>

definition launch_and_wait ::
  "env \<Rightarrow> node_dict \<Rightarrow> pydict \<Rightarrow> world \<Rightarrow> ((exn + oci_instance \<times> node_dict) \<times> world) option" where
  "launch_and_wait env nd lc w =
     (case client_launch_instance env lc w of
        (Inl e, w1) \<Rightarrow> Some (Inl e, w1)
      | (Inr instance_ocid, w1) \<Rightarrow>
          (case wait_for_instance_state env instance_ocid ''RUNNING''
                  (Some (logging_callback instance_ocid))
                  (logger DEBUG ''launched'' [AStr instance_ocid] w1) of
             None \<Rightarrow> None
           | Some (Inl e, w2) \<Rightarrow> Some (Inl e, w2)
           | Some (Inr _, w2) \<Rightarrow>
               (case client_get_instance env instance_ocid
                       (logger DEBUG ''state: RUNNING'' [AStr instance_ocid] w2) of
                  (Inl e, w3) \<Rightarrow> Some (Inl e, w3)
                | (Inr inst, w3) \<Rightarrow>
                    Some (Inr (inst, nd\<lparr>nd_instance_ocid := Some instance_ocid\<rparr>), w3))))"

definition launch_instance_step ::
  "env \<Rightarrow> node_dict \<Rightarrow> node_spec \<Rightarrow> world
   \<Rightarrow> ((exn + oci_instance \<times> node_dict) \<times> world) option" where
  "launch_instance_step env nd spec w =
     (case launch_session env spec w of
        (Inl e, w1) \<Rightarrow> Some (Inl e, w1)
      | (Inr config, w1) \<Rightarrow>
          (case launch_vcpus env config w1 of
             (Inl e, w2) \<Rightarrow> Some (Inl e, w2)
           | (Inr _, w2) \<Rightarrow>
               (case launch_names nd (launch_config config) w2 of
                  (Inl e, w3) \<Rightarrow> Some (Inl e, w3)
                | (Inr lc, w3) \<Rightarrow> launch_and_wait env nd lc w3)))"

text \<open>\<open>__get_vnics\<close> and \<open>__get_vnics_for_instance\<close>.\<close>

definition get_vnics :: "env \<Rightarrow> string \<Rightarrow> world \<Rightarrow> (exn + vnic_attachment list) \<times> world" where
  "get_vnics env compartment_id w = client_list_vnic_attachments env compartment_id w"

definition get_vnics_for_instance ::
  "env \<Rightarrow> string \<Rightarrow> string \<Rightarrow> world \<Rightarrow> (exn + vnic_attachment list) \<times> world" where
  "get_vnics_for_instance env instance_id compartment_id w =
     (case get_vnics env compartment_id w of
        (Inl e, w1) \<Rightarrow> (Inl e, w1)
      | (Inr vnics, w1) \<Rightarrow>
          (Inr (filter (\<lambda>v. va_instance_id v = instance_id
                            \<and> va_lifecycle_state v = ''ATTACHED'') vnics), w1))"

text \<open>
  The loop of \<open>__get_instance_private_ips\<close>: one \<open>get_vnic\<close> per attachment, the
  private address of every truthy answer.
\<close>

fun private_ips_of ::
  "env \<Rightarrow> vnic_attachment list \<Rightarrow> world \<Rightarrow> (exn + string list) \<times> world" where
  "private_ips_of env [] w = (Inr [], w)"
| "private_ips_of env (v # vs) w =
     (case net_client_get_vnic env (va_vnic_id v) w of
        (Inl e, w1) \<Rightarrow> (Inl e, w1)
      | (Inr None, w1) \<Rightarrow> private_ips_of env vs w1
      | (Inr (Some attached_vnic), w1) \<Rightarrow>
          (case private_ips_of env vs w1 of
             (Inl e, w2) \<Rightarrow> (Inl e, w2)
           | (Inr ips, w2) \<Rightarrow> (Inr (vnic_private_ip attached_vnic # ips), w2)))"

definition get_instance_private_ips ::
  "env \<Rightarrow> string \<Rightarrow> string \<Rightarrow> world \<Rightarrow> (exn + string list) \<times> world" where
  "get_instance_private_ips env instance_id compartment_id w =
     (case get_vnics_for_instance env instance_id compartment_id w of
        (Inl e, w1) \<Rightarrow> (Inl e, w1)
      | (Inr vnics, w1) \<Rightarrow> private_ips_of env vnics w1)"

text \<open>
  \<open>_instance_post_launch\<close> from the cache write on: the cache entry, the boot
  address \<open>[nic for nic in node.nics if nic.boot][0].ip\<close> and the pre-add hook.
\<close>

definition post_launch_record ::
  "env \<Rightarrow> oci_instance \<Rightarrow> nat \<Rightarrow> node_spec \<Rightarrow> world \<Rightarrow> (exn + nat) \<times> world" where
  "post_launch_record env inst r spec w =
     (case heap w r of
        None \<Rightarrow> (Inl AttributeError, w)
      | Some n \<Rightarrow>
          (case dict_get (configDict spec) ''shape'' of
             None \<Rightarrow> (Inl KeyError, w)
           | Some (PStr shape) \<Rightarrow>
               (let w1 = instanceCacheSet (node_name n)
                           [(''id'', PStr (inst_id inst)),
                            (''compartment_id'', PStr (inst_id inst)),
                            (''shape'', PStr shape),
                            (''vcpus'', PStr (last (py_split CHR ''.'' shape)))] w
                in case filter nic_boot (node_nics n) of
                     [] \<Rightarrow> (Inl IndexError, w1)
                   | b # _ \<Rightarrow>
                       (case node_softwareprofile n of
                          None \<Rightarrow> (Inl AttributeError, w1)
                        | Some swp \<Rightarrow>
                            (Inr r,
                             logger DEBUG ''_instance_post_launch(): node=[%s]''
                               [AStr (node_name n)]
                               (pre_add_host (node_name n) (hp_name (node_hardwareprofile n))
                                  (sp_name swp) (nic_ip b) w1))))
           | Some _ \<Rightarrow> (Inl AttributeError, w)))"

text \<open>
  The head of \<open>_instance_post_launch\<close>: the node, made and added to the session here
  when pre-launch made none, and its state.
\<close>

definition post_launch_node ::
  "env \<Rightarrow> oci_instance \<Rightarrow> node_dict \<Rightarrow> node_spec \<Rightarrow> world \<Rightarrow> nat \<times> world" where
  "post_launch_node env inst nd spec w =
     (let w1 = logger DEBUG ''Instance post-launch action for instance [%s]''
                 [AStr (inst_id inst)] w;
          (r, w2) =
            (case nd_node nd of
               None \<Rightarrow>
                 (let domain = tl (py_split CHR ''.'' (installer_public_hostname env));
                      fqdn = py_join ''.'' (inst_display_name inst # domain);
                      (r, wa) = initialize_node env fqdn (db_hardware_profile spec)
                                  (db_software_profile spec) w1
                  in (r, db_add r wa))
             | Some r \<Rightarrow> (r, w1))
      in (r, node_assign r (\<lambda>n. n\<lparr>node_state := Some ''Provisioned''\<rparr>) w2))"

text \<open>
  \<open>_instance_post_launch\<close>: after the head, one \<open>Nic(ip=ip, boot=True)\<close> per private
  address, the commit, then the cache entry and the hook above.
\<close>

definition instance_post_launch ::
  "env \<Rightarrow> oci_instance \<Rightarrow> node_dict \<Rightarrow> node_spec \<Rightarrow> world \<Rightarrow> (exn + nat) \<times> world" where
  "instance_post_launch env inst nd spec w =
     (case post_launch_node env inst nd spec w of
        (r, w3) \<Rightarrow>
          (case get_instance_private_ips env (inst_id inst) (inst_compartment_id inst) w3 of
             (Inl e, w4) \<Rightarrow> (Inl e, w4)
           | (Inr ips, w4) \<Rightarrow>
               (let nics = map (\<lambda>ip. \<lparr>nic_ip = ip, nic_boot = True\<rparr>) ips;
                    w5 = db_commit (node_assign r (\<lambda>n. n\<lparr>node_nics := nics\<rparr>) w4)
                in post_launch_record env inst r spec w5)))"

text \<open>The \<open>except Exception\<close> branch of \<open>__oci_add_node\<close>.\<close>

definition launch_failed :: "node_dict \<Rightarrow> exn \<Rightarrow> world \<Rightarrow> world" where
  "launch_failed nd exc w =
     logger ERROR ''Error launching instance: [%s]'' [AExn exc]
       (case nd_node nd of
          Some r \<Rightarrow> db_commit (db_delete r w)
        | None \<Rightarrow> w)"

text \<open>
  \<open>__oci_add_node\<close>: the result is the node, \<open>None\<close> after a failed launch, or the
  exception that pre-launch or post-launch raised.
\<close>

definition oci_add_node ::
  "env \<Rightarrow> node_spec \<Rightarrow> world \<Rightarrow> ((exn + nat option) \<times> world) option" where
  "oci_add_node env spec w =
     (case oci_pre_launch_instance env spec w of
        (Inl e, w1) \<Rightarrow> Some (Inl e, w1)
      | (Inr nd, w1) \<Rightarrow>
          (case launch_instance_step env nd spec w1 of
             None \<Rightarrow> None
           | Some (Inl exc, w2) \<Rightarrow> Some (Inr None, launch_failed nd exc w2)
           | Some (Inr (inst, nd'), w2) \<Rightarrow>
               (case instance_post_launch env inst nd' spec w2 of
                  (Inl e, w3) \<Rightarrow> Some (Inl e, w3)
                | (Inr r, w3) \<Rightarrow> Some (Inr (Some r), w3))))"

text \<open>
  A finished greenlet: its \<open>value\<close> is what the function returned, and \<open>None\<close> when
  it raised.
\<close>

record greenlet =
  gl_value :: "nat option"
  gl_exception :: "exn option"

definition greenlet_of :: "exn + nat option \<Rightarrow> greenlet" where
  "greenlet_of r =
     (case r of
        Inl e \<Rightarrow> \<lparr>gl_value = None, gl_exception = Some e\<rparr>
      | Inr v \<Rightarrow> \<lparr>gl_value = v, gl_exception = None\<rparr>)"

subsection \<open>The units of a request under gevent\<close>

text \<open>
  \<open>__oci_add_nodes\<close> spawns one greenlet per unit, all running \<open>__oci_add_node\<close> on
  the same \<open>node_spec\<close>, and collects them with \<open>gevent.iwait\<close>. A greenlet runs until it
  waits: in \<open>gevent.sleep\<close>, and in a call of a provider client, which waits for the
  answer over the network. There gevent's hub may switch to another greenlet. A unit is
  therefore run in steps, from one such point to the next; \<open>ustate\<close> says where a unit
  stands and holds its local variables:

  \<^item> \<open>NotStarted\<close>: spawned, not yet run;
  \<^item> \<open>AtLaunch\<close>: in \<open>_launch_instance\<close>, at \<open>client.launch_instance\<close>;
  \<^item> \<open>AtPoll\<close>: in the loop of \<open>_wait_for_instance_state\<close>, at \<open>get_instance\<close>,
    with the number of retries;
  \<^item> \<open>AtGet\<close>: at the \<open>get_instance\<close> after the wait;
  \<^item> \<open>AtListVnics\<close>: in \<open>_instance_post_launch\<close>, at \<open>list_vnic_attachments\<close>;
  \<^item> \<open>AtGetVnic\<close>: in the loop of \<open>__get_instance_private_ips\<close>, at \<open>get_vnic\<close>,
    with the attachments still to ask for and the addresses found so far;
  \<^item> \<open>Finished\<close>: the greenlet is ready.
\<close>

datatype ustate =
    NotStarted
  | AtLaunch node_dict pydict
  | AtPoll node_dict string nat
  | AtGet node_dict string
  | AtListVnics oci_instance nat
  | AtGetVnic oci_instance nat "vnic_attachment list" "string list"
  | Finished greenlet

fun finished :: "ustate \<Rightarrow> bool" where
  "finished (Finished g) = True"
| "finished _ = False"

text \<open>
  \<open>_launch_instance\<close> up to the provider call: the session, the vcpus and the names,
  as in \<open>launch_instance_step\<close>.
\<close>

definition launch_prepare ::
  "env \<Rightarrow> node_dict \<Rightarrow> node_spec \<Rightarrow> world \<Rightarrow> (exn + pydict) \<times> world" where
  "launch_prepare env nd spec w =
     (case launch_session env spec w of
        (Inl e, w1) \<Rightarrow> (Inl e, w1)
      | (Inr config, w1) \<Rightarrow>
          (case launch_vcpus env config w1 of
             (Inl e, w2) \<Rightarrow> (Inl e, w2)
           | (Inr _, w2) \<Rightarrow> launch_names nd (launch_config config) w2))"

text \<open>
  \<open>_instance_post_launch\<close> from the addresses on, as in \<open>instance_post_launch\<close>: the
  interfaces, the commit, the cache entry and the hook; then the greenlet is ready.
\<close>

definition post_launch_finish ::
  "env \<Rightarrow> oci_instance \<Rightarrow> nat \<Rightarrow> node_spec \<Rightarrow> string list \<Rightarrow> world \<Rightarrow> (exn + nat) \<times> world" where
  "post_launch_finish env inst r spec ips w =
     (let nics = map (\<lambda>ip. \<lparr>nic_ip = ip, nic_boot = True\<rparr>) ips;
          w5 = db_commit (node_assign r (\<lambda>n. n\<lparr>node_nics := nics\<rparr>) w)
      in post_launch_record env inst r spec w5)"

definition post_launch_end ::
  "env \<Rightarrow> oci_instance \<Rightarrow> nat \<Rightarrow> node_spec \<Rightarrow> string list \<Rightarrow> world \<Rightarrow> ustate \<times> world" where
  "post_launch_end env inst r spec ips w =
     (case post_launch_finish env inst r spec ips w of
        (Inl e, w1) \<Rightarrow> (Finished (greenlet_of (Inl e)), w1)
      | (Inr node, w1) \<Rightarrow> (Finished (greenlet_of (Inr (Some node))), w1))"

text \<open>
  One step of a unit. An exception inside \<open>_launch_instance\<close> goes to the handler of
  \<open>__oci_add_node\<close> and the unit returns \<open>None\<close>; an exception of pre-launch or
  post-launch ends the greenlet.
\<close>

fun unit_step :: "env \<Rightarrow> node_spec \<Rightarrow> ustate \<Rightarrow> world \<Rightarrow> ustate \<times> world" where
  "unit_step env spec NotStarted w =
     (case oci_pre_launch_instance env spec w of
        (Inl e, w1) \<Rightarrow> (Finished (greenlet_of (Inl e)), w1)
      | (Inr nd, w1) \<Rightarrow>
          (case launch_prepare env nd spec w1 of
             (Inl exc, w2) \<Rightarrow> (Finished (greenlet_of (Inr None)), launch_failed nd exc w2)
           | (Inr lc, w2) \<Rightarrow> (AtLaunch nd lc, w2)))"
| "unit_step env spec (AtLaunch nd lc) w =
     (case client_launch_instance env lc w of
        (Inl exc, w1) \<Rightarrow> (Finished (greenlet_of (Inr None)), launch_failed nd exc w1)
      | (Inr instance_ocid, w1) \<Rightarrow>
          (AtPoll (nd\<lparr>nd_instance_ocid := Some instance_ocid\<rparr>) instance_ocid 0,
           logger DEBUG ''launched'' [AStr instance_ocid] w1))"
| "unit_step env spec (AtPoll nd instance_ocid nRetries) w =
     (case client_get_instance env instance_ocid w of
        (Inl exc, w1) \<Rightarrow> (Finished (greenlet_of (Inr None)), launch_failed nd exc w1)
      | (Inr inst, w1) \<Rightarrow>
          if inst_lifecycle_state inst = ''RUNNING''
          then (AtGet nd instance_ocid,
                logger DEBUG ''state: RUNNING'' [AStr instance_ocid] w1)
          else (AtPoll nd instance_ocid (Suc nRetries),
                gevent_sleep (get_random_sleep_time env (clock w1) nRetries)
                  (invoke_callback (Some (logging_callback instance_ocid)) instance_ocid
                     (inst_lifecycle_state inst) w1)))"
| "unit_step env spec (AtGet nd instance_ocid) w =
     (case client_get_instance env instance_ocid w of
        (Inl exc, w1) \<Rightarrow> (Finished (greenlet_of (Inr None)), launch_failed nd exc w1)
      | (Inr inst, w1) \<Rightarrow>
          (case post_launch_node env inst nd spec w1 of
             (r, w2) \<Rightarrow> (AtListVnics inst r, w2)))"
| "unit_step env spec (AtListVnics inst r) w =
     (case get_vnics_for_instance env (inst_id inst) (inst_compartment_id inst) w of
        (Inl e, w1) \<Rightarrow> (Finished (greenlet_of (Inl e)), w1)
      | (Inr vnics, w1) \<Rightarrow>
          if vnics = [] then post_launch_end env inst r spec [] w1
          else (AtGetVnic inst r vnics [], w1))"
| "unit_step env spec (AtGetVnic inst r [] ips) w = post_launch_end env inst r spec ips w"
| "unit_step env spec (AtGetVnic inst r (v # vs) ips) w =
     (case net_client_get_vnic env (va_vnic_id v) w of
        (Inl e, w1) \<Rightarrow> (Finished (greenlet_of (Inl e)), w1)
      | (Inr None, w1) \<Rightarrow>
          if vs = [] then post_launch_end env inst r spec ips w1
          else (AtGetVnic inst r vs ips, w1)
      | (Inr (Some attached_vnic), w1) \<Rightarrow>
          if vs = [] then post_launch_end env inst r spec (ips @ [vnic_private_ip attached_vnic]) w1
          else (AtGetVnic inst r vs (ips @ [vnic_private_ip attached_vnic]), w1))"
| "unit_step env spec (Finished g) w = (Finished g, w)"

text \<open>
  gevent's hub: as long as a unit is not finished, \<open>schedule env k\<close> names the unit
  that runs at the \<open>k\<close>-th switch (the first unfinished one when that unit is finished
  already), and that unit makes one step. \<open>gevent.iwait\<close> yields the greenlets in the
  order in which they get ready. There is no bound on the number of switches: \<open>None\<close>
  is a request with a unit that never gets ready.
\<close>

definition runnable :: "ustate list \<Rightarrow> nat list" where
  "runnable units = filter (\<lambda>i. \<not> finished (units ! i)) [0..<length units]"

definition pick :: "env \<Rightarrow> nat \<Rightarrow> ustate list \<Rightarrow> nat" where
  "pick env k units =
     (if schedule env k \<in> set (runnable units) then schedule env k else hd (runnable units))"

partial_function (option) hub ::
  "env \<Rightarrow> node_spec \<Rightarrow> nat \<Rightarrow> ustate list \<Rightarrow> greenlet list \<Rightarrow> world
   \<Rightarrow> (greenlet list \<times> world) option" where
  "hub env spec k units ready w =
     (if runnable units = [] then Some (ready, w)
      else (case unit_step env spec (units ! pick env k units) w of
              (st, w1) \<Rightarrow>
                hub env spec (Suc k) (units[pick env k units := st])
                  (case st of Finished g \<Rightarrow> ready @ [g] | _ \<Rightarrow> ready) w1))"

declare hub.simps [code]

text \<open>\<open>__oci_add_nodes\<close>: \<open>[result.value for result in gevent.iwait(greenlets) if result.value]\<close>.\<close>

definition oci_add_nodes ::
  "env \<Rightarrow> int \<Rightarrow> node_spec \<Rightarrow> world \<Rightarrow> (nat list \<times> world) option" where
  "oci_add_nodes env n spec w =
     (case hub env spec 0 (replicate (nat n) NotStarted) [] w of
        None \<Rightarrow> None
      | Some (greenlets, w1) \<Rightarrow> Some (List.map_filter gl_value greenlets, w1))"

record add_nodes_request =
  req_count :: int

text \<open>\<open>__add_nodes\<close>: the configuration is read once, before any unit is spawned.\<close>

definition add_nodes ::
  "env \<Rightarrow> add_nodes_request \<Rightarrow> hardware_profile \<Rightarrow> software_profile option \<Rightarrow> world
   \<Rightarrow> ((exn + nat list) \<times> world) option" where
  "add_nodes env request hwp swp w =
     (case getResourceAdapterConfig env w of
        (Inl e, w1) \<Rightarrow> Some (Inl e, w1)
      | (Inr cfg, w1) \<Rightarrow>
          (case oci_add_nodes env (req_count request)
                  \<lparr>db_hardware_profile = hwp, db_software_profile = swp, configDict = cfg\<rparr> w1 of
             None \<Rightarrow> None
           | Some (nodes, w2) \<Rightarrow> Some (Inr nodes, w2)))"

text \<open>
  \<open>start\<close>, after its first debug message; the elapsed time of the last one is not
  modelled.
\<close>

definition start_debug :: "add_nodes_request \<Rightarrow> hardware_profile \<Rightarrow> world \<Rightarrow> world" where
  "start_debug request hwp w =
     logger DEBUG ''start(): addNodesRequest=[%s], dbSession=[%s], dbHardwareProfile=[%s], dbSoftwareProfile=[%s]''
       [AInt (req_count request), AStr (hp_name hwp)] w"

definition start ::
  "env \<Rightarrow> add_nodes_request \<Rightarrow> hardware_profile \<Rightarrow> software_profile option \<Rightarrow> world
   \<Rightarrow> ((exn + nat list) \<times> world) option" where
  "start env request hwp swp w =
     (case add_nodes env request hwp swp (start_debug request hwp w) of
        None \<Rightarrow> None
      | Some (Inl e, w1) \<Rightarrow> Some (Inl e, w1)
      | Some (Inr nodes, w1) \<Rightarrow>
          (let w2 = (if int (length nodes) < req_count request
                     then logger WARNING ''%s node(s) requested, only %s launched successfully''
                            [AInt (req_count request), AInt (int (length nodes))] w1
                     else w1);
               w3 = logger DEBUG ''start() session [%s] completed in %0.2f seconds''
                      [AStr (addHostSession env)] w2
           in Some (Inr nodes, clear_session_nodes nodes w3)))"

text \<open>
  The \<open>try\<close> block of \<open>_delete_node\<close>: cache lookup, provider lookup, terminate,
  three seconds of sleep, the wait for \<open>TERMINATED\<close>, then the cache delete.
\<close>

definition delete_node_try :: "env \<Rightarrow> node \<Rightarrow> world \<Rightarrow> ((exn + unit) \<times> world) option" where
  "delete_node_try env n w =
     (case instanceCacheGet (node_name n) w of
        (Inl e, w1) \<Rightarrow> Some (Inl e, w1)
      | (Inr entry, w1) \<Rightarrow>
          (case dict_get entry ''id'' of
             None \<Rightarrow> Some (Inl KeyError, w1)
           | Some (PStr cached_id) \<Rightarrow>
               (case client_get_instance env cached_id w1 of
                  (Inl e, w2) \<Rightarrow> Some (Inl e, w2)
                | (Inr inst, w2) \<Rightarrow>
                    (case client_terminate_instance env (inst_id inst)
                            (logger DEBUG ''Terminating...'' [AStr cached_id] w2) of
                       (Inl e, w3) \<Rightarrow> Some (Inl e, w3)
                     | (Inr _, w3) \<Rightarrow>
                         (case wait_for_instance_state env cached_id ''TERMINATED'' None
                                 (gevent_sleep 3000 w3) of
                            None \<Rightarrow> None
                          | Some (Inl e, w4) \<Rightarrow> Some (Inl e, w4)
                          | Some (Inr _, w4) \<Rightarrow>
                              Some (Inr (), instanceCacheDelete (node_name n) w4))))
           | Some _ \<Rightarrow> Some (Inl TypeError, w1)))"

text \<open>
  \<open>_delete_node\<close>: \<open>except ResourceNotFound: pass\<close>, then the host cleanup. Any other
  exception leaves the function before the cleanup.
\<close>

definition delete_node :: "env \<Rightarrow> node \<Rightarrow> world \<Rightarrow> ((exn + unit) \<times> world) option" where
  "delete_node env n w =
     (case delete_node_try env n w of
        None \<Rightarrow> None
      | Some (Inl e, w1) \<Rightarrow>
          if e = ResourceNotFound then Some (Inr (), deleteNodeCleanup n w1)
          else Some (Inl e, w1)
      | Some (Inr _, w1) \<Rightarrow> Some (Inr (), deleteNodeCleanup n w1))"

section \<open>What a run is compared with\<close>

text \<open>
  The state the provider reports for an instance at a given time, when it answers at
  all; \<open>first_match\<close> says that \<open>ss\<close> are the states reported from time \<open>t\<close> on
  before the first report of \<open>target\<close>.
\<close>

definition reported :: "env \<Rightarrow> string \<Rightarrow> nat \<Rightarrow> string option" where
  "reported env ocid t =
     (case get_instance env t ocid of
        Inl e \<Rightarrow> None
      | Inr inst \<Rightarrow> Some (inst_lifecycle_state inst))"

definition first_match :: "env \<Rightarrow> string \<Rightarrow> string \<Rightarrow> nat \<Rightarrow> string list \<Rightarrow> bool" where
  "first_match env ocid target t ss =
     ((\<forall>i<length ss. reported env ocid (t + i) = Some (ss ! i) \<and> ss ! i \<noteq> target)
      \<and> reported env ocid (t + length ss) = Some target)"

text \<open>
  The calls of a wait that starts at time \<open>t\<close> with retry count \<open>k\<close> and sees the
  states \<open>ss\<close> before the target: per state a poll, the callback if there is one, and a
  sleep; then the last poll.
\<close>

fun wait_events :: "env \<Rightarrow> string \<Rightarrow> bool \<Rightarrow> nat \<Rightarrow> nat \<Rightarrow> string list \<Rightarrow> event list" where
  "wait_events env ocid has_cb t k [] = [EvGetInstance ocid]"
| "wait_events env ocid has_cb t k (s # ss) =
     [EvGetInstance ocid] @ (if has_cb then [EvCallback ocid s] else [])
       @ [EvSleep (get_random_sleep_time env (Suc t) k)]
       @ wait_events env ocid has_cb (Suc t) (Suc k) ss"

definition wait_log ::
  "callback option \<Rightarrow> string \<Rightarrow> string list \<Rightarrow> log_entry list \<Rightarrow> log_entry list" where
  "wait_log callback ocid ss lg =
     foldl (\<lambda>acc s. case callback of None \<Rightarrow> acc | Some f \<Rightarrow> f ocid s acc) lg ss"

fun is_callback :: "event \<Rightarrow> bool" where
  "is_callback (EvCallback _ _) = True"
| "is_callback _ = False"

text \<open>
  \<open>same_store w w'\<close>: the node objects, the session, the committed table and the
  instance cache of \<open>w'\<close> are those of \<open>w\<close>.
\<close>

definition same_store :: "world \<Rightarrow> world \<Rightarrow> bool" where
  "same_store w w' =
     (heap w' = heap w \<and> next_ref w' = next_ref w \<and> session_new w' = session_new w
      \<and> session_deleted w' = session_deleted w \<and> registry w' = registry w
      \<and> instance_cache w' = instance_cache w)"

fun is_cleanup :: "event \<Rightarrow> bool" where
  "is_cleanup (EvDeleteNodeCleanup _) = True"
| "is_cleanup _ = False"

text \<open>
  The node objects a unit holds a reference to: that of its \<open>node_dict\<close>, that of its
  post-launch step, or the one it has returned.
\<close>

fun held :: "ustate \<Rightarrow> nat set" where
  "held NotStarted = {}"
| "held (AtLaunch nd lc) = set_option (nd_node nd)"
| "held (AtPoll nd ocid k) = set_option (nd_node nd)"
| "held (AtGet nd ocid) = set_option (nd_node nd)"
| "held (AtListVnics inst r) = {r}"
| "held (AtGetVnic inst r vnics ips) = {r}"
| "held (Finished g) = set_option (gl_value g)"

text \<open>
  A node is finalized when its object is in state \<open>Provisioned\<close> and has interfaces,
  all of them boot interfaces, the committed table has the node with these attributes,
  and the instance cache has an entry under its name.
\<close>

definition finalized :: "world \<Rightarrow> nat \<Rightarrow> bool" where
  "finalized w r =
     (case heap w r of
        None \<Rightarrow> False
      | Some n \<Rightarrow>
          registry w r = Some n \<and> node_state n = Some ''Provisioned''
          \<and> node_nics n \<noteq> [] \<and> list_all nic_boot (node_nics n)
          \<and> instance_cache w (node_name n) \<noteq> None)"


text \<open>
  What holds of a unit between its steps: its node object exists and is in the session
  or in the table; in the post-launch step the object is in state \<open>Provisioned\<close>; a
  node that has been returned is finalized.
\<close>

definition provisioned :: "world \<Rightarrow> nat \<Rightarrow> bool" where
  "provisioned w r = (\<forall>n. heap w r = Some n \<longrightarrow> node_state n = Some ''Provisioned'')"

definition unit_ok :: "world \<Rightarrow> ustate \<Rightarrow> bool" where
  "unit_ok w st =
     ((\<forall>r \<in> held st. r < next_ref w \<and> heap w r \<noteq> None
                     \<and> (r \<in> set (session_new w) \<or> registry w r \<noteq> None))
      \<and> (case st of
            AtListVnics inst r \<Rightarrow> provisioned w r
          | AtGetVnic inst r vnics ips \<Rightarrow> provisioned w r
          | Finished g \<Rightarrow> (\<forall>r. gl_value g = Some r \<longrightarrow> finalized w r)
          | _ \<Rightarrow> True))"


text \<open>The node that pre-launch creates under a generated name.\<close>

definition placeholder :: "env \<Rightarrow> node_spec \<Rightarrow> string \<Rightarrow> node" where
  "placeholder env spec name =
     \<lparr>node_name = name, node_state = Some ''Launching'',
      node_softwareprofile = db_software_profile spec,
      node_hardwareprofile = db_hardware_profile spec, node_isIdle = False,
      node_addHostSession = addHostSession env, node_nics = []\<rparr>"

text \<open>
  A decimal integer as \<open>int\<close> reads it: whitespace, an optional sign, groups of
  digits joined by single underscores, whitespace. \<open>digits\<close> is one such group.
\<close>

definition digits :: "string \<Rightarrow> bool" where
  "digits s = (s \<noteq> [] \<and> list_all is_digit s)"


text \<open>
  A string is within the limit \<open>m\<close> of the interpreter when the number of its digits
  is. \<open>decimal n\<close> is the decimal numeral of \<open>n\<close>, without leading zeros.
\<close>

definition within_limit :: "nat \<Rightarrow> string \<Rightarrow> bool" where
  "within_limit m s = (\<not> over_limit m (length (filter is_digit s)))"

definition digit_char :: "nat \<Rightarrow> char" where
  "digit_char d = char_of (48 + d)"

function decimal :: "nat \<Rightarrow> string" where
  "decimal n = (if n < 10 then [digit_char n] else decimal (n div 10) @ [digit_char (n mod 10)])"
  by pat_completeness auto
termination
  by (relation "measure id") auto

declare decimal.simps [simp del]

section \<open>An example installation\<close>

text \<open>
  A small installation on which the results below are run: an installer, a provider
  that starts every instance at once, one attached VNIC per instance.
\<close>

definition demo_config :: pydict where
  "demo_config =
     [(''availability_domain'', PStr ''AD-1''),
      (''compartment_id'', PStr ''ocid1.compartment.c''),
      (''shape'', PStr ''VM.Standard1.2''),
      (''subnet_id'', PStr ''ocid1.subnet.s''),
      (''image_id'', PStr ''ocid1.image.i'')]"

definition demo_env :: env where
  "demo_env =
     \<lparr>kit_config_base = ''/opt/tortuga/kits/oci'',
      home_dir = ''/root'',
      addHostSession = ''session-1'',
      private_dns_zone = ''cloud.example.com'',
      installer_public_hostname = ''installer.example.com'',
      installer_public_ipaddress = ''10.0.0.1'',
      base_adapter_config = (\<lambda>t. Inr demo_config),
      fs_exists = (\<lambda>t p. True),
      fs_isfile = (\<lambda>t p. False),
      fs_read = (\<lambda>t p. Inl OSError),
      fs_readlines = (\<lambda>t p. Inr [''#!/usr/bin/env python'', ''### SETTINGS'']),
      user_data_settings = (\<lambda>c. ''installerHostName = installer.example.com''),
      b64encode = (\<lambda>s. s),
      generate_node_name = (\<lambda>t f z. Inr ''compute-01.cloud.example.com''),
      launch_instance = (\<lambda>t c. Inr ''ocid1.instance.a''),
      get_instance = (\<lambda>t ocid. Inr \<lparr>inst_id = ocid, inst_lifecycle_state = ''RUNNING'',
                                     inst_display_name = ''compute-01'',
                                     inst_compartment_id = ''ocid1.compartment.c''\<rparr>),
      terminate_instance = (\<lambda>t ocid. Inr ()),
      list_vnic_attachments =
        (\<lambda>t c. Inr [\<lparr>va_vnic_id = ''ocid1.vnic.v'', va_instance_id = ''ocid1.instance.a'',
                      va_lifecycle_state = ''ATTACHED''\<rparr>]),
      get_vnic = (\<lambda>t v. Inr (Some \<lparr>vnic_private_ip = ''10.0.0.5'',
                                    vnic_public_ip = ''192.0.2.5''\<rparr>)),
      get_random_sleep_time = (\<lambda>t k. 1000 * Suc k),
      int_max_str_digits = 4300,
      schedule = (\<lambda>k. 0)\<rparr>"

definition world0 :: world where
  "world0 =
     \<lparr>clock = 0, heap = Map.empty, next_ref = 0, session_new = [], session_deleted = [],
      registry = Map.empty, instance_cache = Map.empty, log = [], trace = [],
      adapter_vcpus = PNone, adapter_installer_ip = None\<rparr>"

text \<open>A provider that reports two other states before \<open>RUNNING\<close>.\<close>

definition slow_env :: env where
  "slow_env =
     demo_env\<lparr>get_instance :=
       (\<lambda>t ocid. Inr \<lparr>inst_id = ocid,
                       inst_lifecycle_state =
                         (if t = 0 then ''PROVISIONING''
                          else if t = 1 then ''STARTING'' else ''RUNNING''),
                       inst_display_name = ''compute-01'',
                       inst_compartment_id = ''ocid1.compartment.c''\<rparr>)\<rparr>"

text \<open>
  A provisioned node, its cache entry, a provider that terminates it, and providers
  that have lost it: at the lookup, or at the terminate request.
\<close>

definition demo_node :: node where
  "demo_node =
     \<lparr>node_name = ''compute-01.example.com'', node_state = Some ''Provisioned'',
      node_softwareprofile = Some \<lparr>sp_name = ''Compute''\<rparr>,
      node_hardwareprofile = \<lparr>hp_name = ''OCI'', hp_nameFormat = ''compute-#NN''\<rparr>,
      node_isIdle = False, node_addHostSession = ''session-1'',
      node_nics = [\<lparr>nic_ip = ''10.0.0.5'', nic_boot = True\<rparr>]\<rparr>"

definition demo_entry :: pydict where
  "demo_entry =
     [(''id'', PStr ''ocid1.instance.a''), (''compartment_id'', PStr ''ocid1.instance.a''),
      (''shape'', PStr ''VM.Standard1.2''), (''vcpus'', PStr ''2'')]"

definition cached_world :: world where
  "cached_world =
     world0\<lparr>heap := [0 \<mapsto> demo_node], next_ref := 1, registry := [0 \<mapsto> demo_node],
            instance_cache := [''compute-01.example.com'' \<mapsto> demo_entry]\<rparr>"

definition terminating_env :: env where
  "terminating_env =
     demo_env\<lparr>get_instance :=
       (\<lambda>t ocid. Inr \<lparr>inst_id = ocid,
                       inst_lifecycle_state =
                         (if t = 0 then ''RUNNING''
                          else if t < 3 then ''TERMINATING'' else ''TERMINATED''),
                       inst_display_name = ''compute-01'',
                       inst_compartment_id = ''ocid1.compartment.c''\<rparr>)\<rparr>"

definition gone_env :: env where
  "gone_env = demo_env\<lparr>get_instance := (\<lambda>t ocid. Inl (ServiceError 404))\<rparr>"

definition gone_at_terminate_env :: env where
  "gone_at_terminate_env =
     demo_env\<lparr>terminate_instance := (\<lambda>t ocid. Inl (ServiceError 404))\<rparr>"

text \<open>
  A launch specification, a provider that rejects every launch, and a state in which a
  sibling's node is already committed.
\<close>

definition demo_spec :: node_spec where
  "demo_spec =
     \<lparr>db_hardware_profile = \<lparr>hp_name = ''OCI'', hp_nameFormat = ''compute-#NN''\<rparr>,
      db_software_profile = Some \<lparr>sp_name = ''Compute''\<rparr>,
      configDict = demo_config\<rparr>"

definition failing_env :: env where
  "failing_env = demo_env\<lparr>launch_instance := (\<lambda>t c. Inl (ServiceError 500)),
      generate_node_name := (\<lambda>t f z. Inr ''compute-02.cloud.example.com'')\<rparr>"

definition sibling_world :: world where
  "sibling_world = cached_world\<lparr>clock := 9\<rparr>"

text \<open>
  A state in which three nodes are committed: node 0 is provisioned, nodes 1 and 2 are
  the placeholders of two units of a running request, whose instance for node 1 runs.
  In \<open>racing_world\<close> the unit of node 1 has made the step that looks the instance up
  and begins the post-launch: it has assigned the state of its node and waits for the
  provider's list of interfaces.
\<close>

definition launched_world :: world where
  "launched_world =
     world0\<lparr>clock := 9,
       heap := [0 \<mapsto> demo_node,
                1 \<mapsto> placeholder demo_env demo_spec ''compute-02.example.com'',
                2 \<mapsto> placeholder demo_env demo_spec ''compute-03.example.com''],
       next_ref := 3,
       registry := [0 \<mapsto> demo_node,
                    1 \<mapsto> placeholder demo_env demo_spec ''compute-02.example.com'',
                    2 \<mapsto> placeholder demo_env demo_spec ''compute-03.example.com'']\<rparr>"

definition racing_world :: world where
  "racing_world =
     snd (unit_step failing_env demo_spec
            (AtGet \<lparr>nd_node = Some 1, nd_instance_ocid = Some ''ocid1.instance.a''\<rparr>
               ''ocid1.instance.a'') launched_world)"

text \<open>
  A running instance, a profile with provider-assigned names, a provider with two
  attached VNICs and a detached one, and a state that holds one placeholder.
\<close>

definition demo_instance :: oci_instance where
  "demo_instance =
     \<lparr>inst_id = ''ocid1.instance.a'', inst_lifecycle_state = ''RUNNING'',
      inst_display_name = ''compute-01'', inst_compartment_id = ''ocid1.compartment.c''\<rparr>"

definition wildcard_spec :: node_spec where
  "wildcard_spec =
     \<lparr>db_hardware_profile = \<lparr>hp_name = ''OCI'', hp_nameFormat = ''*''\<rparr>,
      db_software_profile = Some \<lparr>sp_name = ''Compute''\<rparr>,
      configDict = demo_config\<rparr>"

definition two_nic_env :: env where
  "two_nic_env =
     demo_env\<lparr>list_vnic_attachments :=
       (\<lambda>t c. Inr [\<lparr>va_vnic_id = ''ocid1.vnic.v1'', va_instance_id = ''ocid1.instance.a'',
                     va_lifecycle_state = ''ATTACHED''\<rparr>,
                    \<lparr>va_vnic_id = ''ocid1.vnic.v2'', va_instance_id = ''ocid1.instance.a'',
                     va_lifecycle_state = ''ATTACHED''\<rparr>,
                    \<lparr>va_vnic_id = ''ocid1.vnic.v3'', va_instance_id = ''ocid1.instance.a'',
                     va_lifecycle_state = ''DETACHED''\<rparr>]),
       get_vnic :=
         (\<lambda>t v. Inr (Some \<lparr>vnic_private_ip =
                              (if v = ''ocid1.vnic.v1'' then ''10.0.0.5'' else ''10.0.0.6''),
                            vnic_public_ip = ''192.0.2.5''\<rparr>))\<rparr>"

definition launching_world :: world where
  "launching_world =
     world0\<lparr>clock := 7,
            heap := [0 \<mapsto> placeholder demo_env demo_spec ''compute-01.example.com''],
            next_ref := 1,
            registry := [0 \<mapsto> placeholder demo_env demo_spec ''compute-01.example.com'']\<rparr>"

text \<open>
  A request for two nodes under provider-assigned names, a configured template that
  was there when the adapter was made and is gone at the time of the request, and one
  that cannot be read.
\<close>

definition wild_hwp :: hardware_profile where
  "wild_hwp = \<lparr>hp_name = ''OCI'', hp_nameFormat = ''*''\<rparr>"

definition demo_swp :: software_profile where
  "demo_swp = \<lparr>sp_name = ''Compute''\<rparr>"

definition missing_template_env :: env where
  "missing_template_env =
     demo_env\<lparr>base_adapter_config :=
                (\<lambda>t. Inr (demo_config @ [(''user_data_script_template'', PStr ''custom.tmpl'')])),
              fs_exists := (\<lambda>t p. t < 2)\<rparr>"

definition later_world :: world where
  "later_world = world0\<lparr>clock := 2\<rparr>"

definition unreadable_env :: env where
  "unreadable_env = demo_env\<lparr>fs_readlines := (\<lambda>t p. Inl OSError)\<rparr>"

definition demo_request :: add_nodes_request where
  "demo_request = \<lparr>req_count = 2\<rparr>"




section \<open>The state waiter returns at the first matching poll\<close>

lemma first_match_Nil:
  "reported env ocid t = Some target \<Longrightarrow> first_match env ocid target t []"
  by (simp add: first_match_def)

lemma first_match_Cons:
  assumes "reported env ocid t = Some s" "s \<noteq> target"
      and "first_match env ocid target (Suc t) ss"
  shows "first_match env ocid target t (s # ss)"
  unfolding first_match_def
proof (intro conjI allI impI)
  fix i assume "i < length (s # ss)"
  then show "reported env ocid (t + i) = Some ((s # ss) ! i)"
    using assms by (cases i) (simp_all add: first_match_def)
next
  fix i assume "i < length (s # ss)"
  then show "(s # ss) ! i \<noteq> target"
    using assms by (cases i) (simp_all add: first_match_def)
next
  show "reported env ocid (t + length (s # ss)) = Some target"
    using assms(3) by (simp add: first_match_def)
qed

lemma first_match_ConsD:
  assumes "first_match env ocid target t (s # ss)"
  shows "reported env ocid t = Some s" "s \<noteq> target"
    "first_match env ocid target (Suc t) ss"
proof -
  from assms have a: "\<forall>i<Suc (length ss).
      reported env ocid (t + i) = Some ((s # ss) ! i) \<and> (s # ss) ! i \<noteq> target"
    and b: "reported env ocid (Suc (t + length ss)) = Some target"
    by (simp_all add: first_match_def)
  from a [rule_format, of 0] show "reported env ocid t = Some s" "s \<noteq> target"
    by simp_all
  have "\<forall>i<length ss. reported env ocid (Suc t + i) = Some (ss ! i) \<and> ss ! i \<noteq> target"
  proof (intro allI impI)
    fix i assume "i < length ss"
    with a [rule_format, of "Suc i"]
    show "reported env ocid (Suc t + i) = Some (ss ! i) \<and> ss ! i \<noteq> target"
      by simp
  qed
  with b show "first_match env ocid target (Suc t) ss"
    by (simp add: first_match_def)
qed

lemma wait_loop_first_match:
  assumes "first_match env ocid target (clock w) ss"
  shows "wait_loop env ocid target cb k w =
           Some (Inr (), w\<lparr>clock := clock w + length ss + 1,
                           log := wait_log cb ocid ss (log w),
                           trace := trace w @ wait_events env ocid (cb \<noteq> None) (clock w) k ss\<rparr>)"
  using assms
proof (induction ss arbitrary: w k)
  case Nil
  then obtain inst where g: "get_instance env (clock w) ocid = Inr inst"
      and s: "inst_lifecycle_state inst = target"
    by (auto simp: first_match_def reported_def split: sum.splits)
  show ?case
    by (subst wait_loop.simps)
       (simp add: client_get_instance_def g s tick_def emit_def wait_log_def)
next
  case (Cons s ss)
  note fm = first_match_ConsD [OF Cons.prems]
  from fm(1) obtain inst where g: "get_instance env (clock w) ocid = Inr inst"
      and s: "inst_lifecycle_state inst = s"
    by (auto simp: reported_def split: sum.splits)
  define w2 where "w2 = gevent_sleep (get_random_sleep_time env (Suc (clock w)) k)
             (invoke_callback cb ocid s (tick (emit (EvGetInstance ocid) w)))"
  have c2: "clock w2 = Suc (clock w)"
    by (simp add: w2_def gevent_sleep_def invoke_callback_def tick_def emit_def
        split: option.splits)
  have p: "first_match env ocid target (clock w2) ss"
    using fm(3) c2 by simp
  have step: "wait_loop env ocid target cb k w = wait_loop env ocid target cb (Suc k) w2"
    by (subst wait_loop.simps)
       (simp add: client_get_instance_def g s fm(2) w2_def tick_def emit_def)
  show ?case
    unfolding step Cons.IH [OF p]
    by (cases cb)
       (simp_all add: w2_def gevent_sleep_def invoke_callback_def tick_def emit_def
          wait_log_def)
qed

lemma wait_loop_returns:
  assumes ret: "wait_loop env ocid target cb k w = Some y"
  shows "fst y = Inr () \<longrightarrow> (\<exists>ss. first_match env ocid target (clock w) ss)"
proof (rule wait_loop.raw_induct
    [where P = "\<lambda>env ocid target cb k w y.
        fst y = Inr () \<longrightarrow> (\<exists>ss. first_match env ocid target (clock w) ss)",
     OF _ ret], goal_cases)
  case (1 wl env ocid target cb k w y)
  show ?case
  proof (cases "get_instance env (clock w) ocid")
    case (Inl e)
    with 1(2) show ?thesis
      by (auto simp: client_get_instance_def)
  next
    case (Inr inst)
    have h: "reported env ocid (clock w) = Some (inst_lifecycle_state inst)"
      using Inr by (simp add: reported_def)
    show ?thesis
    proof (cases "inst_lifecycle_state inst = target")
      case True
      with h have "first_match env ocid target (clock w) []"
        by (simp add: first_match_Nil)
      then show ?thesis by blast
    next
      case False
      define w2 where "w2 = gevent_sleep (get_random_sleep_time env (Suc (clock w)) k)
             (invoke_callback cb ocid (inst_lifecycle_state inst)
                (tick (emit (EvGetInstance ocid) w)))"
      have c2: "clock w2 = Suc (clock w)"
        by (simp add: w2_def gevent_sleep_def invoke_callback_def tick_def emit_def
            split: option.splits)
      from 1(2) Inr False have rec: "wl env ocid target cb (Suc k) w2 = Some y"
        by (simp add: client_get_instance_def w2_def tick_def emit_def)
      show ?thesis
      proof
        assume "fst y = Inr ()"
        with 1(1) [OF rec] obtain ss where "first_match env ocid target (clock w2) ss"
          by blast
        then have "first_match env ocid target (clock w) (inst_lifecycle_state inst # ss)"
          using h False c2 by (simp add: first_match_Cons)
        then show "\<exists>ss. first_match env ocid target (clock w) ss" by blast
      qed
    qed
  qed
qed

lemma wait_events_callbacks:
  "filter is_callback (wait_events env ocid has_cb t k ss) =
     (if has_cb then map (EvCallback ocid) ss else [])"
  by (induction ss arbitrary: t k) simp_all

text \<open>
  C6. Whatever states the provider reports: if \<open>ss\<close> are the states reported before the
  first report of the target, the waiter returns after exactly \<open>length ss + 1\<close> polls,
  having called the callback (when there is one) once per state of \<open>ss\<close>, with the
  instance id and that state, and on no other poll; and the waiter returns normally only
  if there is such a first report of the target.
\<close>

theorem wait_for_instance_state_first_match:
  "(first_match env ocid target (clock w) ss \<longrightarrow>
      wait_for_instance_state env ocid target cb w =
        Some (Inr (), w\<lparr>clock := clock w + length ss + 1,
                        log := wait_log cb ocid ss (log w),
                        trace := trace w @ wait_events env ocid (cb \<noteq> None) (clock w) 0 ss\<rparr>)
      \<and> filter is_callback (wait_events env ocid (cb \<noteq> None) (clock w) 0 ss) =
          (if cb \<noteq> None then map (EvCallback ocid) ss else []))
   \<and> ((\<exists>w'. wait_for_instance_state env ocid target cb w = Some (Inr (), w')) \<longrightarrow>
        (\<exists>ss. first_match env ocid target (clock w) ss))"
proof (intro conjI impI)
  assume "first_match env ocid target (clock w) ss"
  then show "wait_for_instance_state env ocid target cb w =
        Some (Inr (), w\<lparr>clock := clock w + length ss + 1,
                        log := wait_log cb ocid ss (log w),
                        trace := trace w @ wait_events env ocid (cb \<noteq> None) (clock w) 0 ss\<rparr>)"
    unfolding wait_for_instance_state_def by (rule wait_loop_first_match)
next
  show "filter is_callback (wait_events env ocid (cb \<noteq> None) (clock w) 0 ss) =
          (if cb \<noteq> None then map (EvCallback ocid) ss else [])"
    by (rule wait_events_callbacks)
next
  assume "\<exists>w'. wait_for_instance_state env ocid target cb w = Some (Inr (), w')"
  then obtain w' where "wait_loop env ocid target cb 0 w = Some (Inr (), w')"
    unfolding wait_for_instance_state_def by blast
  from wait_loop_returns [OF this]
  show "\<exists>ss. first_match env ocid target (clock w) ss" by simp
qed

lemma slow_env_first_match:
  "first_match slow_env ''ocid1.instance.a'' ''RUNNING'' 0 [''PROVISIONING'', ''STARTING'']"
  by (simp add: first_match_def reported_def slow_env_def demo_env_def less_Suc_eq)

theorem wait_for_instance_state_first_match_witness:
  "first_match slow_env ''ocid1.instance.a'' ''RUNNING'' (clock world0)
     [''PROVISIONING'', ''STARTING'']
   \<and> map_option fst (wait_for_instance_state slow_env ''ocid1.instance.a'' ''RUNNING''
        (Some (logging_callback ''ocid1.instance.a'')) world0) = Some (Inr ())
   \<and> map_option (trace \<circ> snd) (wait_for_instance_state slow_env ''ocid1.instance.a''
        ''RUNNING'' (Some (logging_callback ''ocid1.instance.a'')) world0) =
       Some [EvGetInstance ''ocid1.instance.a'',
             EvCallback ''ocid1.instance.a'' ''PROVISIONING'', EvSleep 1000,
             EvGetInstance ''ocid1.instance.a'',
             EvCallback ''ocid1.instance.a'' ''STARTING'', EvSleep 2000,
             EvGetInstance ''ocid1.instance.a'']"
proof -
  have c: "clock world0 = 0" by (simp add: world0_def)
  have h: "first_match slow_env ''ocid1.instance.a'' ''RUNNING'' (clock world0)
     [''PROVISIONING'', ''STARTING'']"
    unfolding c by (rule slow_env_first_match)
  have t: "trace world0 = []" by (simp add: world0_def)
  show ?thesis
    using h wait_for_instance_state_first_match
      [of slow_env "''ocid1.instance.a''" "''RUNNING''" world0
          "[''PROVISIONING'', ''STARTING'']" "Some (logging_callback ''ocid1.instance.a'')",
       THEN conjunct1, rule_format, OF h, THEN conjunct1]
    by (simp add: c t slow_env_def demo_env_def)
qed

section \<open>What the calls to the outside leave alone\<close>

lemma same_store_trans: "same_store w w1 \<Longrightarrow> same_store w1 w2 \<Longrightarrow> same_store w w2"
  by (simp add: same_store_def)

lemma wait_loop_same_store:
  assumes ret: "wait_loop env ocid target cb k w = Some y"
  shows "same_store w (snd y)"
proof (rule wait_loop.raw_induct
    [where P = "\<lambda>env ocid target cb k w y. same_store w (snd y)", OF _ ret], goal_cases)
  case (1 wl env ocid target cb k w y)
  show ?case
  proof (cases "get_instance env (clock w) ocid")
    case (Inl e)
    with 1(2) show ?thesis
      by (auto simp: client_get_instance_def same_store_def tick_def emit_def)
  next
    case (Inr inst)
    show ?thesis
    proof (cases "inst_lifecycle_state inst = target")
      case True
      with 1(2) Inr show ?thesis
        by (auto simp: client_get_instance_def same_store_def tick_def emit_def)
    next
      case False
      define w2 where "w2 = gevent_sleep (get_random_sleep_time env (Suc (clock w)) k)
             (invoke_callback cb ocid (inst_lifecycle_state inst)
                (tick (emit (EvGetInstance ocid) w)))"
      have s2: "same_store w w2"
        by (cases cb)
           (simp_all add: w2_def same_store_def gevent_sleep_def invoke_callback_def
              tick_def emit_def)
      from 1(2) Inr False have rec: "wl env ocid target cb (Suc k) w2 = Some y"
        by (simp add: client_get_instance_def w2_def tick_def emit_def)
      from 1(1) [OF rec] s2 show ?thesis
        by (rule same_store_trans [rotated])
    qed
  qed
qed

section \<open>Decommissioning a node\<close>

lemma wait_log_None: "wait_log None ocid ss lg = lg"
  by (induction ss arbitrary: lg) (simp_all add: wait_log_def)

lemma delete_node_try_success:
  assumes cache: "instance_cache w (node_name n) = Some entry"
      and cid: "dict_get entry ''id'' = Some (PStr cid)"
      and get: "get_instance env (clock w) cid = Inr inst"
      and trm: "terminate_instance env (Suc (clock w)) (inst_id inst) = Inr ()"
      and polls: "first_match env cid ''TERMINATED'' (clock w + 2) ss"
  shows "delete_node_try env n w =
           Some (Inr (), w\<lparr>clock := clock w + length ss + 3,
                   instance_cache := (instance_cache w)(node_name n := None),
                   log := log w @ [(DEBUG, ''Terminating...'', [AStr cid])],
                   trace := trace w @ [EvCacheGet (node_name n), EvGetInstance cid,
                                       EvTerminateInstance (inst_id inst), EvSleep 3000]
                              @ wait_events env cid False (clock w + 2) 0 ss
                              @ [EvCacheDelete (node_name n)]\<rparr>)"
proof -
  define w3 where "w3 = gevent_sleep 3000 (snd (client_terminate_instance env (inst_id inst)
       (logger DEBUG ''Terminating...'' [AStr cid]
          (snd (client_get_instance env cid (snd (instanceCacheGet (node_name n) w)))))))"
  have c3: "clock w3 = clock w + 2"
    by (simp add: w3_def gevent_sleep_def client_terminate_instance_def logger_def
        client_get_instance_def instanceCacheGet_def cache tick_def emit_def)
  have fm: "first_match env cid ''TERMINATED'' (clock w3) ss"
    using polls c3 by simp
  have wt: "wait_for_instance_state env cid ''TERMINATED'' None w3 =
     Some (Inr (), w3\<lparr>clock := clock w3 + length ss + 1,
                     log := wait_log None cid ss (log w3),
                     trace := trace w3 @ wait_events env cid False (clock w3) 0 ss\<rparr>)"
    unfolding wait_for_instance_state_def
    using wait_loop_first_match [OF fm, of None 0] by simp
  have eq: "delete_node_try env n w =
      (case wait_for_instance_state env cid ''TERMINATED'' None w3 of
         None \<Rightarrow> None
       | Some (Inl e, w4) \<Rightarrow> Some (Inl e, w4)
       | Some (Inr _, w4) \<Rightarrow> Some (Inr (), instanceCacheDelete (node_name n) w4))"
    by (simp add: delete_node_try_def w3_def instanceCacheGet_def cache cid
        client_get_instance_def get client_terminate_instance_def trm
        logger_def tick_def emit_def)
  show ?thesis
    unfolding eq wt
    by (simp add: c3 wait_log_None instanceCacheDelete_def emit_def)
       (simp add: w3_def gevent_sleep_def client_terminate_instance_def logger_def
        client_get_instance_def instanceCacheGet_def cache tick_def emit_def)
qed

lemma delete_node_try_cache:
  assumes cache: "instance_cache w (node_name n) = Some entry"
      and cid: "dict_get entry ''id'' = Some (PStr cid)"
      and ret: "delete_node_try env n w = Some (r, w')"
  shows "(instance_cache w' = instance_cache w \<and> r \<noteq> Inr ())
         \<or> (\<exists>inst ss. get_instance env (clock w) cid = Inr inst
               \<and> terminate_instance env (Suc (clock w)) (inst_id inst) = Inr ()
               \<and> first_match env cid ''TERMINATED'' (clock w + 2) ss)"
proof (cases "get_instance env (clock w) cid")
  case (Inl e)
  with ret show ?thesis
    by (auto simp: delete_node_try_def instanceCacheGet_def cache cid
        client_get_instance_def tick_def emit_def)
next
  case (Inr inst)
  note get = this
  show ?thesis
  proof (cases "terminate_instance env (Suc (clock w)) (inst_id inst)")
    case (Inl e)
    with ret get show ?thesis
      by (auto simp: delete_node_try_def instanceCacheGet_def cache cid
          client_get_instance_def client_terminate_instance_def logger_def
          tick_def emit_def)
  next
    case (Inr u)
    define w3 where "w3 = gevent_sleep 3000 (snd (client_terminate_instance env (inst_id inst)
       (logger DEBUG ''Terminating...'' [AStr cid]
          (snd (client_get_instance env cid (snd (instanceCacheGet (node_name n) w)))))))"
    have c3: "clock w3 = clock w + 2"
      by (simp add: w3_def gevent_sleep_def client_terminate_instance_def logger_def
          client_get_instance_def instanceCacheGet_def cache tick_def emit_def)
    have i3: "instance_cache w3 = instance_cache w"
      by (simp add: w3_def gevent_sleep_def client_terminate_instance_def logger_def
          client_get_instance_def instanceCacheGet_def cache tick_def emit_def)
    have eq: "delete_node_try env n w =
      (case wait_loop env cid ''TERMINATED'' None 0 w3 of
         None \<Rightarrow> None
       | Some (Inl e, w4) \<Rightarrow> Some (Inl e, w4)
       | Some (Inr _, w4) \<Rightarrow> Some (Inr (), instanceCacheDelete (node_name n) w4))"
      by (simp add: delete_node_try_def w3_def instanceCacheGet_def cache cid
          client_get_instance_def get client_terminate_instance_def Inr
          logger_def tick_def emit_def wait_for_instance_state_def)
    from ret obtain y where y: "wait_loop env cid ''TERMINATED'' None 0 w3 = Some y"
      unfolding eq by (cases "wait_loop env cid ''TERMINATED'' None 0 w3") auto
    show ?thesis
    proof (cases "fst y")
      case (Inl e)
      then have "y = (Inl e, snd y)" by (cases y) simp
      with ret y have "r = Inl e" "w' = snd y"
        unfolding eq by (simp_all split: prod.splits)
      moreover have "instance_cache (snd y) = instance_cache w3"
        using wait_loop_same_store [OF y] by (simp add: same_store_def)
      ultimately show ?thesis by (simp add: i3)
    next
      case (Inr u')
      with wait_loop_returns [OF y] obtain ss
        where "first_match env cid ''TERMINATED'' (clock w3) ss"
        by auto
      with get \<open>terminate_instance env (Suc (clock w)) (inst_id inst) = Inr u\<close> c3
      show ?thesis by auto
    qed
  qed
qed

lemma wait_events_no_cleanup:
  "filter is_cleanup (wait_events env ocid has_cb t k ss) = []"
  by (induction ss arbitrary: t k) simp_all

text \<open>
  C5. For a node with a cache entry: when the provider lookup and the terminate request
  succeed and the instance reports the states \<open>ss\<close> before \<open>TERMINATED\<close>,
  \<open>_delete_node\<close> returns, and its calls are, in this order, the cache lookup, the
  provider lookup, the terminate request, the three seconds of sleep, the polls of the
  waiter up to the one that reports \<open>TERMINATED\<close>, the cache delete and one host
  cleanup. And in every run that returns with the cache entry gone, the waiter has seen
  \<open>TERMINATED\<close> after a successful terminate request.
\<close>

theorem delete_node_ordering:
  assumes cache: "instance_cache w (node_name n) = Some entry"
      and cid: "dict_get entry ''id'' = Some (PStr cid)"
  shows "(get_instance env (clock w) cid = Inr inst
          \<and> terminate_instance env (Suc (clock w)) (inst_id inst) = Inr ()
          \<and> first_match env cid ''TERMINATED'' (clock w + 2) ss \<longrightarrow>
            delete_node env n w =
              Some (Inr (), w\<lparr>clock := clock w + length ss + 3,
                      instance_cache := (instance_cache w)(node_name n := None),
                      log := log w @ [(DEBUG, ''Terminating...'', [AStr cid])],
                      trace := trace w @ [EvCacheGet (node_name n), EvGetInstance cid,
                                          EvTerminateInstance (inst_id inst), EvSleep 3000]
                                 @ wait_events env cid False (clock w + 2) 0 ss
                                 @ [EvCacheDelete (node_name n), EvDeleteNodeCleanup n]\<rparr>)
            \<and> filter is_cleanup
                 ([EvCacheGet (node_name n), EvGetInstance cid,
                   EvTerminateInstance (inst_id inst), EvSleep 3000]
                  @ wait_events env cid False (clock w + 2) 0 ss
                  @ [EvCacheDelete (node_name n), EvDeleteNodeCleanup n])
               = [EvDeleteNodeCleanup n])
       \<and> (\<forall>r w'. delete_node env n w = Some (r, w')
                   \<and> instance_cache w' (node_name n) = None \<longrightarrow>
             (\<exists>i ss'. get_instance env (clock w) cid = Inr i
                \<and> terminate_instance env (Suc (clock w)) (inst_id i) = Inr ()
                \<and> first_match env cid ''TERMINATED'' (clock w + 2) ss'))"
proof (intro conjI impI allI)
  assume a: "get_instance env (clock w) cid = Inr inst
          \<and> terminate_instance env (Suc (clock w)) (inst_id inst) = Inr ()
          \<and> first_match env cid ''TERMINATED'' (clock w + 2) ss"
  then show "delete_node env n w =
              Some (Inr (), w\<lparr>clock := clock w + length ss + 3,
                      instance_cache := (instance_cache w)(node_name n := None),
                      log := log w @ [(DEBUG, ''Terminating...'', [AStr cid])],
                      trace := trace w @ [EvCacheGet (node_name n), EvGetInstance cid,
                                          EvTerminateInstance (inst_id inst), EvSleep 3000]
                                 @ wait_events env cid False (clock w + 2) 0 ss
                                 @ [EvCacheDelete (node_name n), EvDeleteNodeCleanup n]\<rparr>)"
    using delete_node_try_success [OF cache cid, of env inst ss]
    by (simp add: delete_node_def deleteNodeCleanup_def emit_def)
next
  show "filter is_cleanup
                 ([EvCacheGet (node_name n), EvGetInstance cid,
                   EvTerminateInstance (inst_id inst), EvSleep 3000]
                  @ wait_events env cid False (clock w + 2) 0 ss
                  @ [EvCacheDelete (node_name n), EvDeleteNodeCleanup n])
               = [EvDeleteNodeCleanup n]"
    by (simp add: wait_events_no_cleanup)
next
  fix r w'
  assume b: "delete_node env n w = Some (r, w') \<and> instance_cache w' (node_name n) = None"
  then obtain r1 w1 where t: "delete_node_try env n w = Some (r1, w1)"
    by (cases "delete_node_try env n w") (auto simp: delete_node_def)
  have c: "instance_cache w' = instance_cache w1"
    using b t by (auto simp: delete_node_def deleteNodeCleanup_def emit_def
        split: sum.splits if_splits)
  from delete_node_try_cache [OF cache cid t] b c cache
  show "\<exists>i ss'. get_instance env (clock w) cid = Inr i
                \<and> terminate_instance env (Suc (clock w)) (inst_id i) = Inr ()
                \<and> first_match env cid ''TERMINATED'' (clock w + 2) ss'"
    by auto
qed

theorem delete_node_ordering_witness:
  "instance_cache cached_world (node_name demo_node) = Some demo_entry
   \<and> dict_get demo_entry ''id'' = Some (PStr ''ocid1.instance.a'')
   \<and> first_match terminating_env ''ocid1.instance.a'' ''TERMINATED'' (clock cached_world + 2)
        [''TERMINATING'']
   \<and> map_option fst (delete_node terminating_env demo_node cached_world) = Some (Inr ())
   \<and> map_option (trace \<circ> snd) (delete_node terminating_env demo_node cached_world) =
       Some [EvCacheGet ''compute-01.example.com'', EvGetInstance ''ocid1.instance.a'',
             EvTerminateInstance ''ocid1.instance.a'', EvSleep 3000,
             EvGetInstance ''ocid1.instance.a'', EvSleep 1000,
             EvGetInstance ''ocid1.instance.a'',
             EvCacheDelete ''compute-01.example.com'', EvDeleteNodeCleanup demo_node]"
proof -
  have h1: "instance_cache cached_world (node_name demo_node) = Some demo_entry"
    by (simp add: cached_world_def world0_def demo_node_def)
  have h2: "dict_get demo_entry ''id'' = Some (PStr ''ocid1.instance.a'')"
    by (simp add: demo_entry_def dict_get_def)
  have c: "clock cached_world = 0"
    by (simp add: cached_world_def world0_def)
  have h3: "first_match terminating_env ''ocid1.instance.a'' ''TERMINATED''
       (clock cached_world + 2) [''TERMINATING'']"
    by (simp add: c first_match_def reported_def terminating_env_def demo_env_def)
  have h4: "get_instance terminating_env (clock cached_world) ''ocid1.instance.a'' =
      Inr \<lparr>inst_id = ''ocid1.instance.a'', inst_lifecycle_state = ''RUNNING'',
           inst_display_name = ''compute-01'', inst_compartment_id = ''ocid1.compartment.c''\<rparr>"
    by (simp add: c terminating_env_def demo_env_def)
  have h5: "terminate_instance terminating_env (Suc (clock cached_world))
      (inst_id \<lparr>inst_id = ''ocid1.instance.a'', inst_lifecycle_state = ''RUNNING'',
           inst_display_name = ''compute-01'', inst_compartment_id = ''ocid1.compartment.c''\<rparr>)
      = Inr ()"
    by (simp add: terminating_env_def demo_env_def)
  have t: "trace cached_world = []"
    by (simp add: cached_world_def world0_def)
  show ?thesis
    using h1 h2 h3
      delete_node_ordering [OF h1 h2, of terminating_env _ "[''TERMINATING'']",
        THEN conjunct1, rule_format, OF conjI [OF h4 conjI [OF h5 h3]], THEN conjunct1]
    by (simp add: c t demo_node_def terminating_env_def demo_env_def)
qed

text \<open>
  The handler of \<open>_delete_node\<close> is \<open>except ResourceNotFound\<close>, the exception of the
  host framework that the cache lookup raises for a node it does not know: for such a
  node \<open>_delete_node\<close> goes on to the host cleanup.
\<close>

lemma delete_node_cache_miss:
  assumes "instance_cache w (node_name n) = None"
  shows "delete_node env n w =
           Some (Inr (), w\<lparr>trace := trace w @ [EvCacheGet (node_name n),
                                               EvDeleteNodeCleanup n]\<rparr>)"
  using assms
  by (simp add: delete_node_def delete_node_try_def instanceCacheGet_def
      deleteNodeCleanup_def emit_def)

text \<open>
  The provider client is \<open>oci.core.compute_client.ComputeClient\<close>; it reports a failed
  call, a missing instance included, as a service error that carries the HTTP status,
  never as the host framework's \<open>ResourceNotFound\<close>. Any exception other than
  \<open>ResourceNotFound\<close> that the provider lookup or the terminate request raises leaves
  \<open>_delete_node\<close>: the cache is as it was and the host cleanup is not reached.
\<close>

lemma delete_node_other_error:
  assumes cache: "instance_cache w (node_name n) = Some entry"
      and cid: "dict_get entry ''id'' = Some (PStr cid)"
      and err: "get_instance env (clock w) cid = Inl e" "e \<noteq> ResourceNotFound"
  shows "delete_node env n w =
           Some (Inl e, w\<lparr>clock := Suc (clock w),
                   trace := trace w @ [EvCacheGet (node_name n), EvGetInstance cid]\<rparr>)"
  by (simp add: delete_node_def delete_node_try_def instanceCacheGet_def cache cid
      client_get_instance_def err tick_def emit_def)

lemma delete_node_terminate_error:
  assumes cache: "instance_cache w (node_name n) = Some entry"
      and cid: "dict_get entry ''id'' = Some (PStr cid)"
      and get: "get_instance env (clock w) cid = Inr inst"
      and err: "terminate_instance env (Suc (clock w)) (inst_id inst) = Inl e"
               "e \<noteq> ResourceNotFound"
  shows "delete_node env n w =
           Some (Inl e, w\<lparr>clock := Suc (Suc (clock w)),
                   log := log w @ [(DEBUG, ''Terminating...'', [AStr cid])],
                   trace := trace w @ [EvCacheGet (node_name n), EvGetInstance cid,
                                       EvTerminateInstance (inst_id inst)]\<rparr>)"
  by (simp add: delete_node_def delete_node_try_def instanceCacheGet_def cache cid
      client_get_instance_def get client_terminate_instance_def err logger_def
      tick_def emit_def)

text \<open>
  C4. The node \<open>compute-01.example.com\<close> has a cache entry with the instance id
  \<open>ocid1.instance.a\<close>. When that instance is gone and the provider lookup answers with
  the service error of status 404, \<open>_delete_node\<close> raises that error after the lookup:
  the cache entry of the node is still there and the host cleanup has not been called.
  The same happens, one call later, when the lookup still finds the instance and the
  terminate request answers with status 404.
\<close>

theorem delete_node_instance_gone_raises:
  "delete_node gone_env demo_node cached_world =
     Some (Inl (ServiceError 404),
           cached_world\<lparr>clock := 1,
             trace := [EvCacheGet ''compute-01.example.com'',
                       EvGetInstance ''ocid1.instance.a'']\<rparr>)
   \<and> instance_cache
        (cached_world\<lparr>clock := 1,
           trace := [EvCacheGet ''compute-01.example.com'',
                     EvGetInstance ''ocid1.instance.a'']\<rparr>) ''compute-01.example.com''
       = Some demo_entry
   \<and> delete_node gone_at_terminate_env demo_node cached_world =
       Some (Inl (ServiceError 404),
             cached_world\<lparr>clock := 2,
               log := [(DEBUG, ''Terminating...'', [AStr ''ocid1.instance.a''])],
               trace := [EvCacheGet ''compute-01.example.com'',
                         EvGetInstance ''ocid1.instance.a'',
                         EvTerminateInstance ''ocid1.instance.a'']\<rparr>)"
proof -
  have h1: "instance_cache cached_world (node_name demo_node) = Some demo_entry"
    by (simp add: cached_world_def world0_def demo_node_def)
  have h2: "dict_get demo_entry ''id'' = Some (PStr ''ocid1.instance.a'')"
    by (simp add: demo_entry_def dict_get_def)
  have c: "clock cached_world = 0" "trace cached_world = []" "log cached_world = []"
    by (simp_all add: cached_world_def world0_def)
  have g1: "get_instance gone_env (clock cached_world) ''ocid1.instance.a''
      = Inl (ServiceError 404)"
    by (simp add: gone_env_def demo_env_def)
  have g2: "get_instance gone_at_terminate_env (clock cached_world) ''ocid1.instance.a'' =
      Inr demo_instance"
    by (simp add: gone_at_terminate_env_def demo_env_def demo_instance_def)
  have g3: "terminate_instance gone_at_terminate_env (Suc (clock cached_world))
      (inst_id demo_instance) = Inl (ServiceError 404)"
    by (simp add: gone_at_terminate_env_def demo_env_def)
  have a: "delete_node gone_env demo_node cached_world =
     Some (Inl (ServiceError 404),
           cached_world\<lparr>clock := 1,
             trace := [EvCacheGet ''compute-01.example.com'',
                       EvGetInstance ''ocid1.instance.a'']\<rparr>)"
    using delete_node_other_error [OF h1 h2 g1] by (simp add: c demo_node_def)
  have b: "delete_node gone_at_terminate_env demo_node cached_world =
       Some (Inl (ServiceError 404),
             cached_world\<lparr>clock := 2,
               log := [(DEBUG, ''Terminating...'', [AStr ''ocid1.instance.a''])],
               trace := [EvCacheGet ''compute-01.example.com'',
                         EvGetInstance ''ocid1.instance.a'',
                         EvTerminateInstance ''ocid1.instance.a'']\<rparr>)"
    using delete_node_terminate_error [OF h1 h2 g2 g3]
    by (simp add: c demo_node_def demo_instance_def numeral_2_eq_2)
  show ?thesis
    using a b by (simp add: cached_world_def world0_def)
qed

section \<open>A launch step leaves the registry and the cache alone\<close>

lemma get_ssh_key_same_store: "get_ssh_key env w = (r, w') \<Longrightarrow> same_store w w'"
  by (auto simp: get_ssh_key_def Let_def same_store_def tick_def split: if_splits sum.splits)

lemma OciSession_init_same_store:
  "OciSession_init env oc w = (r, w') \<Longrightarrow> same_store w w'"
  by (auto simp: OciSession_init_def Let_def
      split: prod.splits sum.splits option.splits if_splits
      dest: get_ssh_key_same_store)

lemma get_user_data_same_store: "get_user_data env config w = (r, w') \<Longrightarrow> same_store w w'"
  by (auto simp: get_user_data_def Let_def same_store_def get_installer_ip_def logger_def
      tick_def split: option.splits pyval.splits sum.splits)

lemma launch_session_same_store: "launch_session env spec w = (r, w') \<Longrightarrow> same_store w w'"
  by (auto simp: launch_session_def
      split: prod.splits sum.splits option.splits pyval.splits
      dest!: OciSession_init_same_store get_user_data_same_store
      intro: same_store_trans)

lemma launch_vcpus_same_store: "launch_vcpus env config w = (r, w') \<Longrightarrow> same_store w w'"
  by (auto simp: launch_vcpus_def Let_def same_store_def logger_def
      split: option.splits sum.splits pyval.splits if_splits)

lemma launch_names_same_store: "launch_names nd lc w = (r, w') \<Longrightarrow> same_store w w'"
  by (auto simp: launch_names_def same_store_def logger_def split: option.splits)

lemma launch_and_wait_same_store:
  assumes "launch_and_wait env nd lc w = Some (r, w')"
  shows "same_store w w'"
proof (cases "launch_instance env (clock w) lc")
  case (Inl e)
  with assms show ?thesis
    by (auto simp: launch_and_wait_def client_launch_instance_def same_store_def
        tick_def emit_def)
next
  case (Inr ocid)
  define w1 where "w1 = logger DEBUG ''launched'' [AStr ocid] (tick (emit (EvLaunchInstance lc) w))"
  have s1: "same_store w w1"
    by (simp add: w1_def same_store_def logger_def tick_def emit_def)
  from assms Inr obtain y where
    y: "wait_loop env ocid ''RUNNING'' (Some (logging_callback ocid)) 0 w1 = Some y"
    by (cases "wait_loop env ocid ''RUNNING'' (Some (logging_callback ocid)) 0 w1")
       (auto simp: launch_and_wait_def client_launch_instance_def w1_def
          wait_for_instance_state_def)
  have s2: "same_store w1 (snd y)" by (rule wait_loop_same_store [OF y])
  have "same_store (snd y) w'"
    using assms Inr y
    by (auto simp: launch_and_wait_def client_launch_instance_def w1_def
        wait_for_instance_state_def client_get_instance_def same_store_def
        logger_def tick_def emit_def split: prod.splits sum.splits)
  with s1 s2 show ?thesis by (blast intro: same_store_trans)
qed

lemma launch_instance_step_same_store:
  assumes "launch_instance_step env nd spec w = Some (r, w')"
  shows "same_store w w'"
proof -
  obtain r1 w1 where a: "launch_session env spec w = (r1, w1)"
    by (cases "launch_session env spec w")
  note s1 = launch_session_same_store [OF a]
  show ?thesis
  proof (cases r1)
    case (Inl e)
    with assms a s1 show ?thesis by (simp add: launch_instance_step_def)
  next
    case (Inr config)
    obtain r2 w2 where b: "launch_vcpus env config w1 = (r2, w2)"
      by (cases "launch_vcpus env config w1")
    note s2 = same_store_trans [OF s1 launch_vcpus_same_store [OF b]]
    show ?thesis
    proof (cases r2)
      case (Inl e)
      with assms a Inr b s2 show ?thesis by (simp add: launch_instance_step_def)
    next
      case u: (Inr u)
      obtain r3 w3 where c: "launch_names nd (launch_config config) w2 = (r3, w3)"
        by (cases "launch_names nd (launch_config config) w2")
      note s3 = same_store_trans [OF s2 launch_names_same_store [OF c]]
      show ?thesis
      proof (cases r3)
        case (Inl e)
        with assms a Inr b u c s3 show ?thesis by (simp add: launch_instance_step_def)
      next
        case lc: (Inr lc)
        with assms a Inr b u c have "launch_and_wait env nd lc w3 = Some (r, w')"
          by (simp add: launch_instance_step_def)
        from same_store_trans [OF s3 launch_and_wait_same_store [OF this]]
        show ?thesis .
      qed
    qed
  qed
qed

section \<open>A failed launch unit rolls its placeholder back\<close>

lemma pre_launch_node:
  assumes pre: "oci_pre_launch_instance env spec w = (Inr nd, w1)"
      and node: "nd_node nd = Some r"
  shows "\<exists>name. r = next_ref w
           \<and> heap w1 = (heap w)(r \<mapsto> placeholder env spec name)
           \<and> next_ref w1 = Suc r
           \<and> session_new w1 = [] \<and> session_deleted w1 = []
           \<and> registry w1 = (\<lambda>r'. if r' \<in> set (session_deleted w) then None
                  else if r' = r \<or> r' \<in> set (session_new w) \<or> registry w r' \<noteq> None
                       then ((heap w)(r \<mapsto> placeholder env spec name)) r' else None)
           \<and> instance_cache w1 = instance_cache w"
  using pre node
  by (auto simp: oci_pre_launch_instance_def addHostApi_generate_node_name_def
      initialize_node_def node_assign_def db_add_def db_commit_def flush_def
      placeholder_def Let_def tick_def emit_def fun_eq_iff
      split: if_splits sum.splits list.splits)

lemma launch_failed_registry:
  assumes "nd_node nd = Some r"
  shows "registry (launch_failed nd exc w) = (flush w)(r := None)"
    and "heap (launch_failed nd exc w) = heap w"
    and "instance_cache (launch_failed nd exc w) = instance_cache w"
    and "session_new (launch_failed nd exc w) = []"
    and "session_deleted (launch_failed nd exc w) = []"
    and "trace (launch_failed nd exc w) = trace w @ [EvDbDelete r, EvDbCommit]"
    and "log (launch_failed nd exc w) =
           log w @ [(ERROR, ''Error launching instance: [%s]'', [AExn exc])]"
  using assms
  by (auto simp: launch_failed_def db_commit_def db_delete_def flush_def logger_def
      emit_def fun_eq_iff)

text \<open>
  C1. When pre-launch has made a placeholder \<open>r\<close> and the launch step raises, the unit
  returns \<open>None\<close> without raising; its last two calls are the delete of \<open>r\<close> and a
  commit, after which nothing is staged and the registry has no record for \<open>r\<close>, which
  it had (in state \<open>Launching\<close>) when the launch step began and when it failed.
\<close>

theorem oci_add_node_rollback:
  assumes pre: "oci_pre_launch_instance env spec w = (Inr nd, w1)"
      and node: "nd_node nd = Some r"
      and launch: "launch_instance_step env nd spec w1 = Some (Inl exc, w2)"
  shows "\<exists>w'. oci_add_node env spec w = Some (Inr None, w')
           \<and> registry w' r = None
           \<and> session_new w' = [] \<and> session_deleted w' = []
           \<and> trace w' = trace w2 @ [EvDbDelete r, EvDbCommit]
           \<and> log w' = log w2 @ [(ERROR, ''Error launching instance: [%s]'', [AExn exc])]
           \<and> (r \<notin> set (session_deleted w) \<longrightarrow>
                (\<exists>p. registry w1 r = Some p \<and> registry w2 r = Some p
                     \<and> node_state p = Some ''Launching''))"
proof -
  have run: "oci_add_node env spec w = Some (Inr None, launch_failed nd exc w2)"
    by (simp add: oci_add_node_def pre launch)
  from pre_launch_node [OF pre node] obtain name where
    reg: "registry w1 = (\<lambda>r'. if r' \<in> set (session_deleted w) then None
                  else if r' = r \<or> r' \<in> set (session_new w) \<or> registry w r' \<noteq> None
                       then ((heap w)(r \<mapsto> placeholder env spec name)) r' else None)"
    by blast
  have same: "registry w2 = registry w1"
    using launch_instance_step_same_store [OF launch] by (simp add: same_store_def)
  have "r \<notin> set (session_deleted w) \<longrightarrow>
          registry w1 r = Some (placeholder env spec name)
          \<and> registry w2 r = Some (placeholder env spec name)
          \<and> node_state (placeholder env spec name) = Some ''Launching''"
    by (simp add: same reg placeholder_def)
  then show ?thesis
    using run launch_failed_registry [OF node, of exc w2] by auto
qed

text \<open>
  C7, as the code has it. The handler of a failed launch deletes the record of its own
  placeholder \<open>r\<close> and commits. It changes no node object and no cache entry and
  deletes nothing else, but its commit is a commit of the session that all units of the
  request share: it also writes what the other units have added and assigned so far.
  The table it leaves is the one a commit alone would have left at that moment, without
  the record of \<open>r\<close>. So the record of another node \<open>r'\<close> is not removed, unless its
  deletion was staged already, and holds the current attributes of its node object: it
  is as it was when nothing of \<open>r'\<close> was uncommitted, and it changes, or appears, when
  the unit of \<open>r'\<close> has assigned an attribute, or added the node, and not committed yet.
\<close>

theorem rollback_unit_scoped:
  assumes node: "nd_node nd = Some r"
  shows "heap (launch_failed nd exc w) = heap w
       \<and> instance_cache (launch_failed nd exc w) = instance_cache w
       \<and> registry (launch_failed nd exc w) = (flush w)(r := None)
       \<and> (\<forall>r'. r' \<noteq> r \<longrightarrow>
             registry (launch_failed nd exc w) r' = flush w r'
             \<and> (r' \<notin> set (session_deleted w)
                  \<and> (registry w r' \<noteq> None \<or> r' \<in> set (session_new w)) \<longrightarrow>
                registry (launch_failed nd exc w) r' = heap w r')
             \<and> (r' \<notin> set (session_deleted w) \<and> r' \<notin> set (session_new w)
                  \<and> (registry w r' \<noteq> None \<longrightarrow> registry w r' = heap w r') \<longrightarrow>
                registry (launch_failed nd exc w) r' = registry w r'))
       \<and> (oci_pre_launch_instance env spec w0 = (Inr nd, w1)
            \<and> launch_instance_step env nd spec w1 = Some (Inl exc, w) \<longrightarrow>
           oci_add_node env spec w0 = Some (Inr None, launch_failed nd exc w))"
proof (intro conjI impI allI)
  show "heap (launch_failed nd exc w) = heap w"
    and "instance_cache (launch_failed nd exc w) = instance_cache w"
    and reg: "registry (launch_failed nd exc w) = (flush w)(r := None)"
    by (rule launch_failed_registry [OF node])+
next
  fix r' assume ne: "r' \<noteq> r"
  have reg: "registry (launch_failed nd exc w) = (flush w)(r := None)"
    by (rule launch_failed_registry [OF node])
  show "registry (launch_failed nd exc w) r' = flush w r'"
    using ne by (simp add: reg)
  {
    assume "r' \<notin> set (session_deleted w)
            \<and> (registry w r' \<noteq> None \<or> r' \<in> set (session_new w))"
    then show "registry (launch_failed nd exc w) r' = heap w r'"
      using ne by (auto simp: reg flush_def)
  }
  {
    assume "r' \<notin> set (session_deleted w) \<and> r' \<notin> set (session_new w)
            \<and> (registry w r' \<noteq> None \<longrightarrow> registry w r' = heap w r')"
    then show "registry (launch_failed nd exc w) r' = registry w r'"
      using ne by (auto simp: reg flush_def)
  }
next
  assume "oci_pre_launch_instance env spec w0 = (Inr nd, w1)
          \<and> launch_instance_step env nd spec w1 = Some (Inl exc, w)"
  then show "oci_add_node env spec w0 = Some (Inr None, launch_failed nd exc w)"
    by (simp add: oci_add_node_def)
qed

lemmas world_defs = tick_def emit_def logger_def db_add_def db_delete_def db_commit_def
  flush_def node_assign_def initialize_node_def gevent_sleep_def invoke_callback_def
  instanceCacheGet_def instanceCacheSet_def instanceCacheDelete_def pre_add_host_def
  deleteNodeCleanup_def clear_session_nodes_def get_installer_ip_def

lemmas client_defs = addHostApi_generate_node_name_def client_launch_instance_def
  client_get_instance_def client_terminate_instance_def client_list_vnic_attachments_def
  net_client_get_vnic_def

lemmas py_defs = dict_get_def dict_update_def py_split1_def str_startswith_def
  path_join_def py_strip_def str_isspace_def py_int_def over_limit_def int_strip_def
  int_isspace_def is_digit_def
  digit_val_def dec_value_def Let_def

lemmas launch_defs = get_ssh_key_def default_config_def merged_config_def
  cores_from_shape_def OciSession_init_def launch_keys_def launch_config_def
  get_user_data_def launch_session_def launch_vcpus_def launch_names_def
  launch_and_wait_def launch_instance_step_def logging_callback_def
  wait_for_instance_state_def

lemmas demo_defs = demo_config_def demo_env_def world0_def demo_node_def demo_entry_def
  cached_world_def demo_spec_def failing_env_def sibling_world_def

theorem oci_add_node_rollback_witness:
  "fst (oci_pre_launch_instance failing_env demo_spec world0) =
     Inr \<lparr>nd_node = Some 0, nd_instance_ocid = None\<rparr>
   \<and> map_option fst (launch_instance_step failing_env
         \<lparr>nd_node = Some 0, nd_instance_ocid = None\<rparr> demo_spec
         (snd (oci_pre_launch_instance failing_env demo_spec world0))) =
       Some (Inl (ServiceError 500))
   \<and> map_option fst (oci_add_node failing_env demo_spec world0) = Some (Inr None)
   \<and> registry (snd (the (oci_add_node failing_env demo_spec world0))) 0 = None"
proof -
  define nd where "nd = \<lparr>nd_node = Some 0, nd_instance_ocid = None\<rparr>"
  define w1 where "w1 = snd (oci_pre_launch_instance failing_env demo_spec world0)"
  have f: "fst (oci_pre_launch_instance failing_env demo_spec world0) = Inr nd"
    by (simp add: nd_def oci_pre_launch_instance_def world_defs client_defs py_defs
        demo_defs)
  then have pre: "oci_pre_launch_instance failing_env demo_spec world0 = (Inr nd, w1)"
    by (simp add: w1_def prod_eq_iff)
  have node: "nd_node nd = Some 0" by (simp add: nd_def)
  have l: "map_option fst (launch_instance_step failing_env nd demo_spec w1) =
             Some (Inl (ServiceError 500))"
    by (simp add: nd_def w1_def oci_pre_launch_instance_def launch_defs world_defs
        client_defs py_defs demo_defs)
  then obtain w2 where
    launch: "launch_instance_step failing_env nd demo_spec w1 = Some (Inl (ServiceError 500), w2)"
    by (cases "launch_instance_step failing_env nd demo_spec w1") auto
  from oci_add_node_rollback [OF pre node launch] obtain w' where
    "oci_add_node failing_env demo_spec world0 = Some (Inr None, w')" "registry w' 0 = None"
    by blast
  with f l show ?thesis by (simp add: nd_def w1_def)
qed

text \<open>
  In \<open>racing_world\<close> the table still has node 1 as \<open>Launching\<close>; the launch of
  the unit of node 2 is rejected there.
\<close>

lemmas racing_defs = racing_world_def launched_world_def post_launch_node_def
  client_get_instance_def world_defs demo_defs placeholder_def Let_def

theorem rollback_unit_scoped_witness:
  "nd_node \<lparr>nd_node = Some 2, nd_instance_ocid = None\<rparr> = Some 2
   \<and> registry racing_world 0 = Some demo_node
   \<and> registry (launch_failed \<lparr>nd_node = Some 2, nd_instance_ocid = None\<rparr>
                 (ServiceError 500) racing_world) 0 = Some demo_node
   \<and> registry (launch_failed \<lparr>nd_node = Some 2, nd_instance_ocid = None\<rparr>
                 (ServiceError 500) racing_world) 1 = heap racing_world 1
   \<and> map_option node_state (heap racing_world 1) = Some (Some ''Provisioned'')
   \<and> registry (launch_failed \<lparr>nd_node = Some 2, nd_instance_ocid = None\<rparr>
                 (ServiceError 500) racing_world) 2 = None
   \<and> heap (launch_failed \<lparr>nd_node = Some 2, nd_instance_ocid = None\<rparr>
             (ServiceError 500) racing_world) = heap racing_world
   \<and> fst (oci_pre_launch_instance failing_env demo_spec sibling_world) =
       Inr \<lparr>nd_node = Some 1, nd_instance_ocid = None\<rparr>
   \<and> map_option fst (launch_instance_step failing_env
         \<lparr>nd_node = Some 1, nd_instance_ocid = None\<rparr> demo_spec
         (snd (oci_pre_launch_instance failing_env demo_spec sibling_world))) =
       Some (Inl (ServiceError 500))
   \<and> map_option fst (oci_add_node failing_env demo_spec sibling_world) = Some (Inr None)"
proof -
  define nd where "nd = \<lparr>nd_node = Some (2::nat), nd_instance_ocid = None :: string option\<rparr>"
  have node: "nd_node nd = Some 2" by (simp add: nd_def)
  note u = rollback_unit_scoped [OF node, of "ServiceError 500" racing_world]
  have sd: "session_deleted racing_world = []" "session_new racing_world = []"
    by (simp_all add: racing_defs)
  have r0: "registry racing_world 0 = Some demo_node" "heap racing_world 0 = Some demo_node"
    by (simp_all add: racing_defs)
  have r1: "registry racing_world 1 \<noteq> None"
    by (simp add: racing_defs)
  have h1: "map_option node_state (heap racing_world 1) = Some (Some ''Provisioned'')"
    by (simp add: racing_defs)
  have a: "registry (launch_failed nd (ServiceError 500) racing_world) 0 = Some demo_node"
    using u [THEN conjunct2, THEN conjunct2, THEN conjunct2, THEN conjunct1, rule_format,
        of 0, THEN conjunct2, THEN conjunct2] sd r0 by simp
  have b: "registry (launch_failed nd (ServiceError 500) racing_world) 1 = heap racing_world 1"
    using u [THEN conjunct2, THEN conjunct2, THEN conjunct2, THEN conjunct1, rule_format,
        of 1, THEN conjunct2, THEN conjunct1] sd r1 by simp
  have c: "registry (launch_failed nd (ServiceError 500) racing_world) 2 = None"
    using u by simp
  have d: "heap (launch_failed nd (ServiceError 500) racing_world) = heap racing_world"
    using u by simp
  define nd1 where "nd1 = \<lparr>nd_node = Some (1::nat), nd_instance_ocid = None :: string option\<rparr>"
  define w1 where "w1 = snd (oci_pre_launch_instance failing_env demo_spec sibling_world)"
  have f: "fst (oci_pre_launch_instance failing_env demo_spec sibling_world) = Inr nd1"
    by (simp add: nd1_def oci_pre_launch_instance_def world_defs client_defs py_defs
        demo_defs)
  then have pre: "oci_pre_launch_instance failing_env demo_spec sibling_world = (Inr nd1, w1)"
    by (simp add: w1_def prod_eq_iff)
  have node1: "nd_node nd1 = Some 1" by (simp add: nd1_def)
  have l: "map_option fst (launch_instance_step failing_env nd1 demo_spec w1) =
             Some (Inl (ServiceError 500))"
    by (simp add: nd1_def w1_def oci_pre_launch_instance_def launch_defs world_defs
        client_defs py_defs demo_defs)
  then obtain w2 where
    launch: "launch_instance_step failing_env nd1 demo_spec w1 = Some (Inl (ServiceError 500), w2)"
    by (cases "launch_instance_step failing_env nd1 demo_spec w1") auto
  from rollback_unit_scoped [OF node1, of "ServiceError 500" w2 failing_env demo_spec
      sibling_world w1, THEN conjunct2, THEN conjunct2, THEN conjunct2, THEN conjunct2,
      rule_format, OF conjI [OF pre launch]]
  have e: "map_option fst (oci_add_node failing_env demo_spec sibling_world) = Some (Inr None)"
    by simp
  show ?thesis
    using a b c d r0 h1 f l e by (simp add: nd_def nd1_def w1_def)
qed

theorem rollback_unit_scoped_counterexample:
  "map_option node_state (registry racing_world 1) = Some (Some ''Launching'')
   \<and> fst (unit_step failing_env demo_spec
            (AtLaunch \<lparr>nd_node = Some 2, nd_instance_ocid = None\<rparr> []) racing_world)
       = Finished \<lparr>gl_value = None, gl_exception = None\<rparr>
   \<and> map_option node_state
        (registry (snd (unit_step failing_env demo_spec
                          (AtLaunch \<lparr>nd_node = Some 2, nd_instance_ocid = None\<rparr> [])
                          racing_world)) 1) = Some (Some ''Provisioned'')
   \<and> map_option node_state
        (registry (launch_failed \<lparr>nd_node = Some 2, nd_instance_ocid = None\<rparr>
                     (ServiceError 500) racing_world) 1) = Some (Some ''Provisioned'')"
  by (simp add: racing_defs launch_failed_def client_launch_instance_def greenlet_of_def)

section \<open>Post-launch: interfaces and cache entry\<close>

lemma private_ips_of_heap:
  "private_ips_of env vs w = (r, w') \<Longrightarrow> same_store w w'"
proof (induction vs arbitrary: w r w')
  case Nil
  then show ?case by (simp add: same_store_def)
next
  case (Cons v vs)
  define w1 where "w1 = tick (emit (EvGetVnic (va_vnic_id v)) w)"
  have s1: "same_store w w1" by (simp add: w1_def same_store_def tick_def emit_def)
  show ?case
  proof (cases "get_vnic env (clock w) (va_vnic_id v)")
    case (Inl e)
    with Cons.prems s1 show ?thesis
      by (simp add: net_client_get_vnic_def w1_def)
  next
    case (Inr ov)
    show ?thesis
    proof (cases ov)
      case None
      with Cons.prems Inr have "private_ips_of env vs w1 = (r, w')"
        by (simp add: net_client_get_vnic_def w1_def)
      from same_store_trans [OF s1 Cons.IH [OF this]] show ?thesis .
    next
      case (Some d)
      obtain r2 w2 where b: "private_ips_of env vs w1 = (r2, w2)"
        by (cases "private_ips_of env vs w1")
      with Cons.prems Inr Some have "w' = w2"
        by (auto simp: net_client_get_vnic_def w1_def split: sum.splits)
      with same_store_trans [OF s1 Cons.IH [OF b]] show ?thesis by simp
    qed
  qed
qed

lemma get_instance_private_ips_same_store:
  "get_instance_private_ips env i c w = (r, w') \<Longrightarrow> same_store w w'"
  by (auto simp: get_instance_private_ips_def get_vnics_for_instance_def get_vnics_def
      client_list_vnic_attachments_def
      split: prod.splits sum.splits
      dest!: private_ips_of_heap)
     (auto simp: same_store_def tick_def emit_def)

text \<open>What a successful post-launch has done.\<close>

lemma instance_post_launch_success:
  assumes ok: "instance_post_launch env inst nd spec w = (Inr r, w')"
  shows "\<exists>ips n shape swp w3 w4.
           post_launch_node env inst nd spec w = (r, w3)
         \<and> get_instance_private_ips env (inst_id inst) (inst_compartment_id inst) w3
             = (Inr ips, w4)
         \<and> ips \<noteq> []
         \<and> heap w' r = Some n
         \<and> node_nics n = map (\<lambda>ip. \<lparr>nic_ip = ip, nic_boot = True\<rparr>) ips
         \<and> node_softwareprofile n = Some swp
         \<and> dict_get (configDict spec) ''shape'' = Some (PStr shape)
         \<and> instance_cache w' =
             (instance_cache w)(node_name n \<mapsto>
               [(''id'', PStr (inst_id inst)),
                (''compartment_id'', PStr (inst_id inst)),
                (''shape'', PStr shape),
                (''vcpus'', PStr (last (py_split CHR ''.'' shape)))])
         \<and> trace w' = trace w4 @
             [EvDbCommit,
              EvCacheSet (node_name n)
                [(''id'', PStr (inst_id inst)),
                 (''compartment_id'', PStr (inst_id inst)),
                 (''shape'', PStr shape),
                 (''vcpus'', PStr (last (py_split CHR ''.'' shape)))],
              EvPreAddHost (node_name n) (hp_name (node_hardwareprofile n)) (sp_name swp)
                (hd ips)]"
proof -
  obtain r0 w3 where pn: "post_launch_node env inst nd spec w = (r0, w3)"
    by (cases "post_launch_node env inst nd spec w")
  obtain q w4 where gi:
    "get_instance_private_ips env (inst_id inst) (inst_compartment_id inst) w3 = (q, w4)"
    by (cases "get_instance_private_ips env (inst_id inst) (inst_compartment_id inst) w3")
  from ok pn gi obtain ips where q: "q = Inr ips"
    by (cases q) (auto simp: instance_post_launch_def)
  define nics where "nics = map (\<lambda>ip. \<lparr>nic_ip = ip, nic_boot = True\<rparr>) ips"
  define w5 where "w5 = db_commit (node_assign r0 (\<lambda>n. n\<lparr>node_nics := nics\<rparr>) w4)"
  from ok pn gi q have rec: "post_launch_record env inst r0 spec w5 = (Inr r, w')"
    by (simp add: instance_post_launch_def w5_def nics_def)
  have c3: "instance_cache w3 = instance_cache w"
    using pn
    by (auto simp: post_launch_node_def Let_def initialize_node_def db_add_def
        node_assign_def logger_def emit_def split: option.splits prod.splits)
  have c4: "instance_cache w4 = instance_cache w3"
    using get_instance_private_ips_same_store [OF gi] by (simp add: same_store_def)
  have c5: "instance_cache w5 = instance_cache w" "trace w5 = trace w4 @ [EvDbCommit]"
    "heap w5 r0 = map_option (\<lambda>n. n\<lparr>node_nics := nics\<rparr>) (heap w4 r0)"
    by (simp_all add: w5_def db_commit_def node_assign_def emit_def c3 c4)
  from rec obtain n where hn: "heap w5 r0 = Some n"
    by (cases "heap w5 r0") (auto simp: post_launch_record_def)
  with c5(3) have nn: "node_nics n = nics" by (cases "heap w4 r0") auto
  have fb: "filter nic_boot nics = nics"
    by (simp add: nics_def filter_map comp_def)
  from rec hn nn fb obtain shape swp where
    sh: "dict_get (configDict spec) ''shape'' = Some (PStr shape)"
    and sw: "node_softwareprofile n = Some swp"
    and ne: "nics \<noteq> []"
    and rr: "r = r0"
    and w': "w' = logger DEBUG ''_instance_post_launch(): node=[%s]'' [AStr (node_name n)]
              (pre_add_host (node_name n) (hp_name (node_hardwareprofile n)) (sp_name swp)
                 (nic_ip (hd nics))
                 (instanceCacheSet (node_name n)
                    [(''id'', PStr (inst_id inst)),
                     (''compartment_id'', PStr (inst_id inst)),
                     (''shape'', PStr shape),
                     (''vcpus'', PStr (last (py_split CHR ''.'' shape)))] w5))"
    by (auto simp: post_launch_record_def Let_def
        split: option.splits pyval.splits list.splits)
  have ipsne: "ips \<noteq> []" using ne by (simp add: nics_def)
  have hdip: "nic_ip (hd nics) = hd ips"
    using ipsne by (cases ips) (simp_all add: nics_def)
  have hw: "heap w' r = Some n"
    using hn rr
    by (simp add: w' logger_def pre_add_host_def instanceCacheSet_def emit_def)
  have cw: "instance_cache w' =
             (instance_cache w)(node_name n \<mapsto>
               [(''id'', PStr (inst_id inst)),
                (''compartment_id'', PStr (inst_id inst)),
                (''shape'', PStr shape),
                (''vcpus'', PStr (last (py_split CHR ''.'' shape)))])"
    by (simp add: w' logger_def pre_add_host_def instanceCacheSet_def emit_def c5(1))
  have tw: "trace w' = trace w4 @
             [EvDbCommit,
              EvCacheSet (node_name n)
                [(''id'', PStr (inst_id inst)),
                 (''compartment_id'', PStr (inst_id inst)),
                 (''shape'', PStr shape),
                 (''vcpus'', PStr (last (py_split CHR ''.'' shape)))],
              EvPreAddHost (node_name n) (hp_name (node_hardwareprofile n)) (sp_name swp)
                (hd ips)]"
    by (simp add: w' logger_def pre_add_host_def instanceCacheSet_def emit_def c5(2) hdip)
  from pn rr have pn': "post_launch_node env inst nd spec w = (r, w3)" by simp
  from gi q have gi':
    "get_instance_private_ips env (inst_id inst) (inst_compartment_id inst) w3 = (Inr ips, w4)"
    by simp
  from nn have nn': "node_nics n = map (\<lambda>ip. \<lparr>nic_ip = ip, nic_boot = True\<rparr>) ips"
    by (simp add: nics_def)
  from pn' gi' ipsne hw nn' sw sh cw tw show ?thesis by blast
qed

lemmas post_defs = post_launch_node_def instance_post_launch_def post_launch_record_def
  get_instance_private_ips_def get_vnics_for_instance_def get_vnics_def placeholder_def

text \<open>
  C3, as the code has it. A post-launch that succeeds has resolved at least one
  address; the node has one \<open>Nic\<close> per resolved address, in their order, each of them
  marked as boot interface, and the address handed to the pre-add hook, the last call
  of the post-launch, is the first resolved one.
\<close>

theorem post_launch_nics:
  assumes ok: "instance_post_launch env inst nd spec w = (Inr r, w')"
  shows "\<exists>ips n swp w3 w4.
           post_launch_node env inst nd spec w = (r, w3)
         \<and> get_instance_private_ips env (inst_id inst) (inst_compartment_id inst) w3
             = (Inr ips, w4)
         \<and> ips \<noteq> []
         \<and> heap w' r = Some n
         \<and> node_nics n = map (\<lambda>ip. \<lparr>nic_ip = ip, nic_boot = True\<rparr>) ips
         \<and> map nic_ip (node_nics n) = ips
         \<and> filter nic_boot (node_nics n) = node_nics n
         \<and> node_softwareprofile n = Some swp
         \<and> last (trace w') =
             EvPreAddHost (node_name n) (hp_name (node_hardwareprofile n)) (sp_name swp)
               (hd ips)"
proof -
  from instance_post_launch_success [OF ok] obtain ips n shape swp w3 w4 where
    a: "post_launch_node env inst nd spec w = (r, w3)"
       "get_instance_private_ips env (inst_id inst) (inst_compartment_id inst) w3
          = (Inr ips, w4)"
       "ips \<noteq> []" "heap w' r = Some n"
       "node_nics n = map (\<lambda>ip. \<lparr>nic_ip = ip, nic_boot = True\<rparr>) ips"
    and sw: "node_softwareprofile n = Some swp"
    and tr: "trace w' = trace w4 @
             [EvDbCommit,
              EvCacheSet (node_name n)
                [(''id'', PStr (inst_id inst)),
                 (''compartment_id'', PStr (inst_id inst)),
                 (''shape'', PStr shape),
                 (''vcpus'', PStr (last (py_split CHR ''.'' shape)))],
              EvPreAddHost (node_name n) (hp_name (node_hardwareprofile n)) (sp_name swp)
                (hd ips)]"
    by blast
  have b: "map nic_ip (node_nics n) = ips"
    by (simp add: a(5) comp_def)
  have c: "filter nic_boot (node_nics n) = node_nics n"
    by (simp add: a(5) filter_map comp_def)
  have d: "last (trace w') =
             EvPreAddHost (node_name n) (hp_name (node_hardwareprofile n)) (sp_name swp)
               (hd ips)"
    by (simp add: tr)
  show ?thesis
    apply (rule exI [of _ ips], rule exI [of _ n], rule exI [of _ swp],
        rule exI [of _ w3], rule exI [of _ w4])
    apply (intro conjI a b c d sw)
    done
qed

theorem post_launch_nics_witness:
  "instance_post_launch demo_env demo_instance \<lparr>nd_node = None, nd_instance_ocid = None\<rparr>
      wildcard_spec world0 =
     (Inr 0, snd (instance_post_launch demo_env demo_instance
                    \<lparr>nd_node = None, nd_instance_ocid = None\<rparr> wildcard_spec world0))
   \<and> map_option node_nics (heap (snd (instance_post_launch demo_env demo_instance
         \<lparr>nd_node = None, nd_instance_ocid = None\<rparr> wildcard_spec world0)) 0) =
       Some [\<lparr>nic_ip = ''10.0.0.5'', nic_boot = True\<rparr>]"
proof -
  have f: "fst (instance_post_launch demo_env demo_instance
      \<lparr>nd_node = None, nd_instance_ocid = None\<rparr> wildcard_spec world0) = Inr 0"
    by (simp add: post_defs world_defs client_defs py_defs demo_defs demo_instance_def
        wildcard_spec_def)
  then have ok: "instance_post_launch demo_env demo_instance
      \<lparr>nd_node = None, nd_instance_ocid = None\<rparr> wildcard_spec world0 =
     (Inr 0, snd (instance_post_launch demo_env demo_instance
                    \<lparr>nd_node = None, nd_instance_ocid = None\<rparr> wildcard_spec world0))"
    by (simp add: prod_eq_iff)
  have g: "fst (get_instance_private_ips demo_env (inst_id demo_instance)
        (inst_compartment_id demo_instance)
        (snd (post_launch_node demo_env demo_instance
           \<lparr>nd_node = None, nd_instance_ocid = None\<rparr> wildcard_spec world0))) =
      Inr [''10.0.0.5'']"
    by (simp add: post_defs world_defs client_defs py_defs demo_defs demo_instance_def
        wildcard_spec_def)
  from post_launch_nics [OF ok] g ok show ?thesis by (auto simp: prod_eq_iff)
qed

theorem post_launch_nics_counterexample:
  "fst (instance_post_launch two_nic_env demo_instance
      \<lparr>nd_node = None, nd_instance_ocid = None\<rparr> wildcard_spec world0) = Inr 0
   \<and> map_option node_nics (heap (snd (instance_post_launch two_nic_env demo_instance
         \<lparr>nd_node = None, nd_instance_ocid = None\<rparr> wildcard_spec world0)) 0) =
       Some [\<lparr>nic_ip = ''10.0.0.5'', nic_boot = True\<rparr>,
             \<lparr>nic_ip = ''10.0.0.6'', nic_boot = True\<rparr>]"
  by (simp add: post_defs world_defs client_defs py_defs demo_defs demo_instance_def
      wildcard_spec_def two_nic_env_def)

text \<open>
  C9. The cache entry that a successful post-launch writes under the name of the node
  has the instance id under \<open>'id'\<close> and under \<open>'compartment_id'\<close>, the configured
  shape under \<open>'shape'\<close> and, as a string, the last dot-separated piece of the shape
  under \<open>'vcpus'\<close>.
\<close>

theorem post_launch_cache_entry:
  assumes ok: "instance_post_launch env inst nd spec w = (Inr r, w')"
  shows "\<exists>n shape entry.
           heap w' r = Some n
         \<and> dict_get (configDict spec) ''shape'' = Some (PStr shape)
         \<and> instance_cache w' (node_name n) = Some entry
         \<and> entry = [(''id'', PStr (inst_id inst)),
                    (''compartment_id'', PStr (inst_id inst)),
                    (''shape'', PStr shape),
                    (''vcpus'', PStr (last (py_split CHR ''.'' shape)))]
         \<and> dict_get entry ''id'' = Some (PStr (inst_id inst))
         \<and> dict_get entry ''compartment_id'' = Some (PStr (inst_id inst))
         \<and> dict_get entry ''vcpus'' = Some (PStr (last (py_split CHR ''.'' shape)))"
proof -
  from instance_post_launch_success [OF ok] obtain n shape where
    a: "heap w' r = Some n" "dict_get (configDict spec) ''shape'' = Some (PStr shape)"
    and c: "instance_cache w' =
             (instance_cache w)(node_name n \<mapsto>
               [(''id'', PStr (inst_id inst)),
                (''compartment_id'', PStr (inst_id inst)),
                (''shape'', PStr shape),
                (''vcpus'', PStr (last (py_split CHR ''.'' shape)))])"
    by blast
  from a show ?thesis by (simp add: c dict_get_def)
qed

theorem post_launch_cache_entry_witness:
  "instance_post_launch demo_env demo_instance
      \<lparr>nd_node = Some 0, nd_instance_ocid = Some ''ocid1.instance.a''\<rparr>
      demo_spec launching_world =
     (Inr 0, snd (instance_post_launch demo_env demo_instance
                    \<lparr>nd_node = Some 0, nd_instance_ocid = Some ''ocid1.instance.a''\<rparr>
                    demo_spec launching_world))
   \<and> instance_cache (snd (instance_post_launch demo_env demo_instance
         \<lparr>nd_node = Some 0, nd_instance_ocid = Some ''ocid1.instance.a''\<rparr>
         demo_spec launching_world)) ''compute-01.example.com'' =
       Some [(''id'', PStr ''ocid1.instance.a''),
             (''compartment_id'', PStr ''ocid1.instance.a''),
             (''shape'', PStr ''VM.Standard1.2''),
             (''vcpus'', PStr ''2'')]"
proof -
  have f: "fst (instance_post_launch demo_env demo_instance
      \<lparr>nd_node = Some 0, nd_instance_ocid = Some ''ocid1.instance.a''\<rparr>
      demo_spec launching_world) = Inr 0"
    by (simp add: post_defs world_defs client_defs py_defs demo_defs demo_instance_def
        launching_world_def)
  then have ok: "instance_post_launch demo_env demo_instance
      \<lparr>nd_node = Some 0, nd_instance_ocid = Some ''ocid1.instance.a''\<rparr>
      demo_spec launching_world =
     (Inr 0, snd (instance_post_launch demo_env demo_instance
                    \<lparr>nd_node = Some 0, nd_instance_ocid = Some ''ocid1.instance.a''\<rparr>
                    demo_spec launching_world))"
    by (simp add: prod_eq_iff)
  have h: "map_option node_name (heap (snd (instance_post_launch demo_env demo_instance
         \<lparr>nd_node = Some 0, nd_instance_ocid = Some ''ocid1.instance.a''\<rparr>
         demo_spec launching_world)) 0) = Some ''compute-01.example.com''"
    by (simp add: post_defs world_defs client_defs py_defs demo_defs demo_instance_def
        launching_world_def)
  have sh: "dict_get (configDict demo_spec) ''shape'' = Some (PStr ''VM.Standard1.2'')"
    by (simp add: demo_defs dict_get_def)
  from post_launch_cache_entry [OF ok] h sh ok show ?thesis
    by (auto simp: demo_instance_def)
qed

section \<open>The units of a request under gevent\<close>

subsection \<open>The hub\<close>




lemma hub_step:
  assumes "runnable units \<noteq> []"
      and "unit_step env spec (units ! pick env k units) w = (st, w1)"
  shows "hub env spec k units ready w =
           hub env spec (Suc k) (units[pick env k units := st])
             (case st of Finished g \<Rightarrow> ready @ [g] | _ \<Rightarrow> ready) w1"
  using assms by (subst hub.simps) simp

subsection \<open>What a step leaves to the other units\<close>



















lemma unit_ok_none: "unit_ok w (Finished (greenlet_of (Inl e)))"
  "unit_ok w (Finished (greenlet_of (Inr None)))"
  by (simp_all add: unit_ok_def greenlet_of_def)



subsection \<open>What holds between two switches\<close>






section \<open>A request: partial success and configuration failures\<close>


lemmas unit_defs = oci_pre_launch_instance_def oci_add_node_def launch_failed_def
  greenlet_of_def getResourceAdapterConfig_def start_debug_def

lemma get_installer_ip_fields:
  "clock (get_installer_ip env w) = clock w"
  "log (get_installer_ip env w) = log w"
  "trace (get_installer_ip env w) = trace w"
  "heap (get_installer_ip env w) = heap w"
  "next_ref (get_installer_ip env w) = next_ref w"
  by (simp_all add: get_installer_ip_def split: option.splits)






lemma launch_instance_step_prepare:
  "launch_instance_step env nd spec w =
     (case launch_prepare env nd spec w of
        (Inl e, w1) \<Rightarrow> Some (Inl e, w1)
      | (Inr lc, w1) \<Rightarrow> launch_and_wait env nd lc w1)"
  by (simp add: launch_instance_step_def launch_prepare_def
      split: prod.splits sum.splits)

text \<open>
  C8, as the code has it. A configured user-data template that does not exist makes
  \<open>getResourceAdapterConfig\<close> raise in \<open>__add_nodes\<close>, before any unit is spawned:
  \<open>start\<close> raises \<open>ConfigurationError\<close> and has made no call for any unit. A failure
  inside the launch step of a unit is caught there and the unit returns \<open>None\<close>: so
  for the unit run on its own, and so under gevent when the failure comes before the
  provider call (a template that cannot be opened is such a failure) or from the
  provider call (which is where a missing launch parameter is rejected). The greenlet
  of that unit is then ready, and the hub goes on with the other units.
\<close>

theorem config_failure_scope:
  "(base_adapter_config env (clock w) = Inr cfg
      \<and> dict_get cfg ''user_data_script_template'' = Some (PStr t)
      \<and> \<not> fs_exists env (Suc (clock w))
            (if str_startswith t ''/'' then t else path_join (kit_config_base env) t)
    \<longrightarrow> (\<exists>w'. start env request hwp swp w = Some (Inl ConfigurationError, w')
              \<and> trace w' = trace w \<and> same_store w w'))
   \<and> (oci_pre_launch_instance env spec w = (Inr nd, w1)
      \<and> launch_instance_step env nd spec w1 = Some (Inl exc, w2)
    \<longrightarrow> oci_add_node env spec w = Some (Inr None, launch_failed nd exc w2))
   \<and> (oci_pre_launch_instance env spec w = (Inr nd, w1)
      \<and> launch_prepare env nd spec w1 = (Inl exc, w2)
    \<longrightarrow> unit_step env spec NotStarted w =
          (Finished \<lparr>gl_value = None, gl_exception = None\<rparr>, launch_failed nd exc w2))
   \<and> (client_launch_instance env lc w = (Inl exc, w2)
    \<longrightarrow> unit_step env spec (AtLaunch nd lc) w =
          (Finished \<lparr>gl_value = None, gl_exception = None\<rparr>, launch_failed nd exc w2))
   \<and> (runnable units \<noteq> []
      \<and> unit_step env spec (units ! pick env k units) w = (Finished g, w2)
    \<longrightarrow> hub env spec k units ready w =
          hub env spec (Suc k) (units[pick env k units := Finished g]) (ready @ [g]) w2)
   \<and> (OciSession_init env (configDict spec) w1 = (Inr config, wa)
      \<and> dict_get config ''user_data_script_template'' = Some (PStr p)
      \<and> fs_readlines env (clock wa) p = Inl e
    \<longrightarrow> (\<exists>w2. launch_instance_step env nd spec w1 = Some (Inl e, w2)
              \<and> launch_prepare env nd spec w1 = (Inl e, w2)))"
proof (intro conjI impI)
  assume "base_adapter_config env (clock w) = Inr cfg
      \<and> dict_get cfg ''user_data_script_template'' = Some (PStr t)
      \<and> \<not> fs_exists env (Suc (clock w))
            (if str_startswith t ''/'' then t else path_join (kit_config_base env) t)"
  then show "\<exists>w'. start env request hwp swp w = Some (Inl ConfigurationError, w')
              \<and> trace w' = trace w \<and> same_store w w'"
    by (auto simp: start_def add_nodes_def getResourceAdapterConfig_def start_debug_def
        logger_def tick_def same_store_def Let_def)
next
  assume "oci_pre_launch_instance env spec w = (Inr nd, w1)
      \<and> launch_instance_step env nd spec w1 = Some (Inl exc, w2)"
  then show "oci_add_node env spec w = Some (Inr None, launch_failed nd exc w2)"
    by (simp add: oci_add_node_def)
next
  assume "oci_pre_launch_instance env spec w = (Inr nd, w1)
      \<and> launch_prepare env nd spec w1 = (Inl exc, w2)"
  then show "unit_step env spec NotStarted w =
          (Finished \<lparr>gl_value = None, gl_exception = None\<rparr>, launch_failed nd exc w2)"
    by (simp add: greenlet_of_def)
next
  assume "client_launch_instance env lc w = (Inl exc, w2)"
  then show "unit_step env spec (AtLaunch nd lc) w =
          (Finished \<lparr>gl_value = None, gl_exception = None\<rparr>, launch_failed nd exc w2)"
    by (simp add: greenlet_of_def)
next
  assume "runnable units \<noteq> []
      \<and> unit_step env spec (units ! pick env k units) w = (Finished g, w2)"
  then show "hub env spec k units ready w =
          hub env spec (Suc k) (units[pick env k units := Finished g]) (ready @ [g]) w2"
    using hub_step [of units env spec k w "Finished g" w2 ready] by simp
next
  assume "OciSession_init env (configDict spec) w1 = (Inr config, wa)
      \<and> dict_get config ''user_data_script_template'' = Some (PStr p)
      \<and> fs_readlines env (clock wa) p = Inl e"
  then have "\<exists>w2. launch_prepare env nd spec w1 = (Inl e, w2)"
    by (simp add: launch_prepare_def launch_session_def get_user_data_def Let_def
        get_installer_ip_fields logger_def)
  then show "\<exists>w2. launch_instance_step env nd spec w1 = Some (Inl e, w2)
              \<and> launch_prepare env nd spec w1 = (Inl e, w2)"
    by (auto simp: launch_instance_step_prepare)
qed


theorem config_failure_scope_witness:
  "base_adapter_config missing_template_env (clock later_world) =
     Inr (demo_config @ [(''user_data_script_template'', PStr ''custom.tmpl'')])
   \<and> \<not> fs_exists missing_template_env (Suc (clock later_world))
         (path_join (kit_config_base missing_template_env) ''custom.tmpl'')
   \<and> map_option fst (start missing_template_env demo_request wild_hwp (Some demo_swp)
         later_world) = Some (Inl ConfigurationError)
   \<and> fst (oci_pre_launch_instance failing_env wildcard_spec world0) =
       Inr \<lparr>nd_node = None, nd_instance_ocid = None\<rparr>
   \<and> map_option fst (launch_instance_step failing_env
         \<lparr>nd_node = None, nd_instance_ocid = None\<rparr> wildcard_spec world0) =
       Some (Inl (ServiceError 500))
   \<and> map_option fst (oci_add_node failing_env wildcard_spec world0) = Some (Inr None)
   \<and> fst (client_launch_instance failing_env [] world0) = Inl (ServiceError 500)
   \<and> fst (unit_step failing_env wildcard_spec
            (AtLaunch \<lparr>nd_node = None, nd_instance_ocid = None\<rparr> []) world0)
       = Finished \<lparr>gl_value = None, gl_exception = None\<rparr>
   \<and> fs_readlines unreadable_env
        (clock (snd (OciSession_init unreadable_env (configDict wildcard_spec) world0)))
        ''/opt/tortuga/kits/oci/oci_bootstrap.tmpl'' = Inl OSError
   \<and> map_option fst (launch_instance_step unreadable_env
         \<lparr>nd_node = None, nd_instance_ocid = None\<rparr> wildcard_spec world0) =
       Some (Inl OSError)
   \<and> fst (launch_prepare unreadable_env
         \<lparr>nd_node = None, nd_instance_ocid = None\<rparr> wildcard_spec world0) = Inl OSError
   \<and> fst (unit_step unreadable_env wildcard_spec NotStarted world0)
       = Finished \<lparr>gl_value = None, gl_exception = None\<rparr>
   \<and> runnable [NotStarted, NotStarted] \<noteq> []
   \<and> hub unreadable_env wildcard_spec 0 [NotStarted, NotStarted] [] world0 =
       hub unreadable_env wildcard_spec (Suc 0)
         [Finished \<lparr>gl_value = None, gl_exception = None\<rparr>, NotStarted]
         [\<lparr>gl_value = None, gl_exception = None\<rparr>]
         (snd (unit_step unreadable_env wildcard_spec NotStarted world0))"
proof -
  note thm1 = config_failure_scope [THEN conjunct1, rule_format]
  note thm2 = config_failure_scope [THEN conjunct2, THEN conjunct1, rule_format]
  note thm3 = config_failure_scope [THEN conjunct2, THEN conjunct2, THEN conjunct1,
      rule_format]
  note thm4 = config_failure_scope [THEN conjunct2, THEN conjunct2, THEN conjunct2,
      THEN conjunct1, rule_format]
  note thm5 = config_failure_scope [THEN conjunct2, THEN conjunct2, THEN conjunct2,
      THEN conjunct2, THEN conjunct1, rule_format]
  note thm6 = config_failure_scope [THEN conjunct2, THEN conjunct2, THEN conjunct2,
      THEN conjunct2, THEN conjunct2, rule_format]
  define nd where "nd = \<lparr>nd_node = None :: nat option, nd_instance_ocid = None :: string option\<rparr>"
  define g where "g = \<lparr>gl_value = None :: nat option, gl_exception = None :: exn option\<rparr>"
  have a1: "base_adapter_config missing_template_env (clock later_world) =
     Inr (demo_config @ [(''user_data_script_template'', PStr ''custom.tmpl'')])"
    by (simp add: missing_template_env_def demo_env_def later_world_def world0_def)
  have a2: "dict_get (demo_config @ [(''user_data_script_template'', PStr ''custom.tmpl'')])
      ''user_data_script_template'' = Some (PStr ''custom.tmpl'')"
    by (simp add: dict_get_def demo_config_def)
  have a3: "\<not> fs_exists missing_template_env (Suc (clock later_world))
         (if str_startswith ''custom.tmpl'' ''/'' then ''custom.tmpl''
          else path_join (kit_config_base missing_template_env) ''custom.tmpl'')"
    by (simp add: missing_template_env_def demo_env_def later_world_def world0_def)
  have a3': "\<not> fs_exists missing_template_env (Suc (clock later_world))
         (path_join (kit_config_base missing_template_env) ''custom.tmpl'')"
    by (simp add: missing_template_env_def demo_env_def later_world_def world0_def)
  from thm1 [OF conjI [OF a1 conjI [OF a2 a3]], of demo_request wild_hwp "Some demo_swp"]
  have r1: "map_option fst (start missing_template_env demo_request wild_hwp (Some demo_swp)
         later_world) = Some (Inl ConfigurationError)"
    by auto
  have pre: "oci_pre_launch_instance env wildcard_spec world0 = (Inr nd, world0)" for env
    by (simp add: oci_pre_launch_instance_def wildcard_spec_def nd_def)
  have b2: "map_option fst (launch_instance_step failing_env nd wildcard_spec world0) =
       Some (Inl (ServiceError 500))"
    by (simp add: nd_def wildcard_spec_def launch_defs world_defs client_defs py_defs
        demo_defs)
  then obtain w2 where b3: "launch_instance_step failing_env nd wildcard_spec world0 =
       Some (Inl (ServiceError 500), w2)"
    by (cases "launch_instance_step failing_env nd wildcard_spec world0") auto
  from thm2 [OF conjI [OF pre b3]]
  have r2: "map_option fst (oci_add_node failing_env wildcard_spec world0) = Some (Inr None)"
    by simp
  have d1: "fst (client_launch_instance failing_env [] world0) = Inl (ServiceError 500)"
    by (simp add: client_launch_instance_def failing_env_def)
  then have d2: "client_launch_instance failing_env [] world0 =
      (Inl (ServiceError 500), snd (client_launch_instance failing_env [] world0))"
    by (simp add: prod_eq_iff)
  from thm4 [OF d2, of wildcard_spec nd]
  have r4: "fst (unit_step failing_env wildcard_spec (AtLaunch nd []) world0) = Finished g"
    by (simp add: g_def)
  define cfg where "cfg = fst (OciSession_init unreadable_env (configDict wildcard_spec) world0)"
  define wa where "wa = snd (OciSession_init unreadable_env (configDict wildcard_spec) world0)"
  have c0: "\<exists>config. cfg = Inr config
      \<and> dict_get config ''user_data_script_template''
          = Some (PStr ''/opt/tortuga/kits/oci/oci_bootstrap.tmpl'')"
    by (simp add: cfg_def wildcard_spec_def launch_defs world_defs py_defs demo_defs
        unreadable_env_def)
  then obtain config where c1: "OciSession_init unreadable_env (configDict wildcard_spec)
        world0 = (Inr config, wa)"
    and c2: "dict_get config ''user_data_script_template''
          = Some (PStr ''/opt/tortuga/kits/oci/oci_bootstrap.tmpl'')"
    by (auto simp: cfg_def wa_def prod_eq_iff)
  have c3: "fs_readlines unreadable_env (clock wa)
        ''/opt/tortuga/kits/oci/oci_bootstrap.tmpl'' = Inl OSError"
    by (simp add: unreadable_env_def demo_env_def)
  from thm6 [OF conjI [OF c1 conjI [OF c2 c3]], of nd] obtain w3 where
    r6: "launch_instance_step unreadable_env nd wildcard_spec world0 = Some (Inl OSError, w3)"
    and lp: "launch_prepare unreadable_env nd wildcard_spec world0 = (Inl OSError, w3)"
    by blast
  from thm3 [OF conjI [OF pre lp]]
  have r3: "unit_step unreadable_env wildcard_spec NotStarted world0 =
      (Finished g, launch_failed nd OSError w3)"
    by (simp add: g_def)
  have run: "runnable [NotStarted, NotStarted] \<noteq> []"
    by (simp add: runnable_def upt_rec)
  have pk: "pick unreadable_env 0 [NotStarted, NotStarted] = 0"
    by (simp add: pick_def runnable_def upt_rec unreadable_env_def demo_env_def)
  from thm5 [of "[NotStarted, NotStarted]" unreadable_env wildcard_spec 0 world0 g
      "launch_failed nd OSError w3" "[]"] run r3
  have r5: "hub unreadable_env wildcard_spec 0 [NotStarted, NotStarted] [] world0 =
       hub unreadable_env wildcard_spec (Suc 0) [Finished g, NotStarted] [g]
         (snd (unit_step unreadable_env wildcard_spec NotStarted world0))"
    by (simp add: pk)
  show ?thesis
    using a1 a3' r1 pre [of failing_env] b2 r2 d1 r4 c3 r6 lp r3 run r5
    by (simp add: wa_def nd_def g_def)
qed

theorem config_failure_scope_counterexample:
  "map_option fst (start missing_template_env demo_request wild_hwp (Some demo_swp) later_world)
     = Some (Inl ConfigurationError)
   \<and> map_option (trace \<circ> snd)
        (start missing_template_env demo_request wild_hwp (Some demo_swp) later_world) = Some []
   \<and> req_count demo_request = 2"
  by (simp add: start_def add_nodes_def unit_defs world_defs py_defs demo_defs
      missing_template_env_def demo_request_def later_world_def)


section \<open>The strings that \<open>int\<close> accepts\<close>

lemma is_digit_not_special:
  assumes "is_digit c"
  shows "c \<noteq> CHR ''_''" "c \<noteq> CHR ''+''" "c \<noteq> CHR ''-''" "\<not> int_isspace c"
  using assms by (auto simp: is_digit_def int_isspace_def Let_def)

lemma sign_not_space: "\<not> int_isspace CHR ''+''" "\<not> int_isspace CHR ''-''"
  by (simp_all add: int_isspace_def)

lemma digits_Cons: "digits (c # s) = (is_digit c \<and> (s = [] \<or> digits s))"
  by (cases s) (auto simp: digits_def)

lemma valid_digits_digits: "digits g \<Longrightarrow> valid_digits g"
proof (induction g rule: valid_digits.induct)
  case 1
  then show ?case by (simp add: digits_def)
next
  case (2 c)
  then show ?case by (simp add: digits_def)
next
  case (3 c d r)
  from "3.prems" have c: "is_digit c" and d: "digits (d # r)"
    by (simp_all add: digits_Cons)
  from d have "is_digit d" by (simp add: digits_Cons)
  then have "d \<noteq> CHR ''_''" by (rule is_digit_not_special)
  with c d "3.IH"(2) show ?case by simp
qed

lemma valid_digits_group:
  "digits g \<Longrightarrow> valid_digits rest \<Longrightarrow> valid_digits (g @ CHR ''_'' # rest)"
proof (induction g rule: valid_digits.induct)
  case 1
  then show ?case by (simp add: digits_def)
next
  case (2 c)
  then show ?case by (simp add: digits_def)
next
  case (3 c d r)
  from "3.prems"(1) have c: "is_digit c" and d: "digits (d # r)"
    by (simp_all add: digits_Cons)
  from d have "is_digit d" by (simp add: digits_Cons)
  then have ne: "d \<noteq> CHR ''_''" by (rule is_digit_not_special)
  from "3.IH"(2) [OF c ne d "3.prems"(2)] c ne show ?case by simp
qed

lemma valid_digits_join:
  "groups \<noteq> [] \<Longrightarrow> list_all digits groups \<Longrightarrow> valid_digits (py_join ''_'' groups)"
proof (induction groups)
  case Nil
  then show ?case by simp
next
  case (Cons g gs)
  show ?case
  proof (cases gs)
    case Nil
    with Cons.prems show ?thesis by (simp add: valid_digits_digits)
  next
    case (Cons h hs)
    with Cons.prems Cons.IH show ?thesis by (simp add: valid_digits_group)
  qed
qed


lemma valid_digits_ends:
  "valid_digits b \<Longrightarrow> b \<noteq> [] \<and> is_digit (hd b) \<and> is_digit (last b)"
  by (induction b rule: valid_digits.induct) (auto split: if_splits)

lemma int_strip_middle:
  assumes pre: "list_all int_isspace pre" and post: "list_all int_isspace post"
      and mid: "mid \<noteq> []" "\<not> int_isspace (hd mid)" "\<not> int_isspace (last mid)"
  shows "int_strip (pre @ mid @ post) = mid"
proof -
  have a: "dropWhile int_isspace (pre @ mid @ post) = mid @ post"
  proof -
    have "dropWhile int_isspace (pre @ mid @ post) = dropWhile int_isspace (mid @ post)"
      using pre by (simp add: dropWhile_append2 list_all_iff)
    also have "\<dots> = mid @ post"
      using mid(1,2) by (cases mid) simp_all
    finally show ?thesis .
  qed
  have b: "dropWhile int_isspace (rev post @ rev mid) = rev mid"
  proof -
    have "dropWhile int_isspace (rev post @ rev mid) = dropWhile int_isspace (rev mid)"
      using post by (subst dropWhile_append2) (auto simp: list_all_iff)
    also have "\<dots> = rev mid"
      using mid(1,3) by (cases "rev mid") (simp_all add: hd_rev [symmetric])
    finally show ?thesis .
  qed
  show ?thesis
    by (simp add: int_strip_def a b)
qed


lemma filter_digits: "list_all is_digit s \<Longrightarrow> filter (\<lambda>c. c \<noteq> CHR ''_'') s = s"
  by (induction s) (auto dest: is_digit_not_special(1))

lemma filter_is_digit: "list_all is_digit s \<Longrightarrow> filter is_digit s = s"
  by (induction s) auto

lemma filter_join:
  "list_all digits groups \<Longrightarrow>
     filter (\<lambda>c. c \<noteq> CHR ''_'') (py_join ''_'' groups) = concat groups
     \<and> filter is_digit (py_join ''_'' groups) = concat groups"
proof (induction groups)
  case Nil
  then show ?case by simp
next
  case (Cons g gs)
  from Cons.prems have g: "list_all is_digit g" by (simp add: digits_def)
  show ?case
  proof (cases gs)
    case Nil
    with g show ?thesis by (simp add: filter_digits filter_is_digit)
  next
    case (Cons h hs)
    have u: "\<not> is_digit CHR ''_''" by (simp add: is_digit_def)
    from Cons Cons.prems Cons.IH g u show ?thesis
      by (simp add: filter_digits filter_is_digit)
  qed
qed

lemma filter_is_digit_space: "list_all int_isspace pre \<Longrightarrow> filter is_digit pre = []"
  by (induction pre) (auto dest: is_digit_not_special(4))

lemma filter_is_digit_sign:
  "sn = [] \<or> sn = ''+'' \<or> sn = ''-'' \<Longrightarrow> filter is_digit sn = []"
  by (auto simp: is_digit_def)

text \<open>The value of a literal, and the literals that are over the limit.\<close>

lemma py_int_parts:
  assumes s: "s = pre @ sn @ py_join ''_'' groups @ post"
      and sp: "list_all int_isspace pre" "list_all int_isspace post"
      and sg: "sn = [] \<or> sn = ''+'' \<or> sn = ''-''"
      and gs: "groups \<noteq> []" "list_all digits groups"
  shows "py_int m s =
           (if within_limit m s
            then Inr ((if sn = ''-'' then - 1 else 1) * dec_value (concat groups))
            else Inl ValueError)"
    and "filter is_digit s = concat groups"
proof -
  define body where "body = py_join ''_'' groups"
  have v: "valid_digits body"
    using gs by (simp add: body_def valid_digits_join)
  from valid_digits_ends [OF v] have e: "body \<noteq> []" "is_digit (hd body)" "is_digit (last body)"
    by simp_all
  have m: "sn @ body \<noteq> []" "\<not> int_isspace (hd (sn @ body))"
    "\<not> int_isspace (last (sn @ body))"
    using sg e by (auto simp: is_digit_not_special sign_not_space)
  have "int_strip (pre @ (sn @ body) @ post) = sn @ body"
    by (rule int_strip_middle [OF sp m])
  then have st: "int_strip s = sn @ body"
    by (simp add: s body_def)
  have f: "filter (\<lambda>c. c \<noteq> CHR ''_'') body = concat groups"
    "filter is_digit body = concat groups"
    using filter_join [OF gs(2)] by (simp_all add: body_def)
  show c: "filter is_digit s = concat groups"
    using filter_is_digit_space [OF sp(1)] filter_is_digit_space [OF sp(2)]
      filter_is_digit_sign [OF sg] f(2)
    by (simp add: s body_def)
  from sg show "py_int m s =
           (if within_limit m s
            then Inr ((if sn = ''-'' then - 1 else 1) * dec_value (concat groups))
            else Inl ValueError)"
  proof (elim disjE)
    assume "sn = []"
    then show ?thesis
      using e v by (simp add: py_int_def st Let_def is_digit_not_special f within_limit_def c)
  next
    assume "sn = ''+''"
    then show ?thesis
      using v by (simp add: py_int_def st Let_def f within_limit_def c)
  next
    assume "sn = ''-''"
    then show ?thesis
      using v by (simp add: py_int_def st Let_def f within_limit_def c)
  qed
qed


lemma py_int_digits:
  assumes "digits s"
  shows "py_int m s = (if within_limit m s then Inr (dec_value s) else Inl ValueError)"
proof -
  have "s = [] @ [] @ py_join ''_'' (s # []) @ []" by simp
  from py_int_parts(1) [OF this, of m] assms show ?thesis by simp
qed






subsection \<open>The value of a decimal numeral\<close>

lemma dec_value_Nil: "dec_value [] = 0"
  by (simp add: dec_value_def)

lemma dec_value_snoc: "dec_value (s @ [c]) = 10 * dec_value s + digit_val c"
  by (simp add: dec_value_def)

lemma digit_char: "d < 10 \<Longrightarrow> is_digit (digit_char d) \<and> digit_val (digit_char d) = int d"
  by (simp add: is_digit_def digit_val_def digit_char_def)

lemma digit_char_eq: "(of_char c :: nat) = 48 + d \<Longrightarrow> digit_char d = c"
  by (metis char_of_char digit_char_def)

lemma digits_decimal: "digits (decimal n)"
proof (induction n rule: decimal.induct)
  case (1 n)
  show ?case
  proof (cases "n < 10")
    case True
    then show ?thesis by (simp add: decimal.simps [of n] digits_def digit_char)
  next
    case False
    with 1 have "digits (decimal (n div 10))" by simp
    then show ?thesis
      using False by (simp add: decimal.simps [of n] digits_def digit_char)
  qed
qed

lemma dec_value_decimal: "dec_value (decimal n) = int n"
proof (induction n rule: decimal.induct)
  case (1 n)
  show ?case
  proof (cases "n < 10")
    case True
    then show ?thesis
      using dec_value_snoc [of "[]" "digit_char n"]
      by (simp add: decimal.simps [of n] dec_value_Nil digit_char)
  next
    case False
    with 1 have "dec_value (decimal (n div 10)) = int (n div 10)" by simp
    moreover have "10 * int (n div 10) + int (n mod 10) = int n"
    proof -
      have "int n = int (10 * (n div 10) + n mod 10)" by simp
      also have "\<dots> = 10 * int (n div 10) + int (n mod 10)"
        by (simp only: of_nat_add of_nat_mult of_nat_numeral)
      finally show ?thesis by simp
    qed
    ultimately show ?thesis
      using False by (simp add: decimal.simps [of n] dec_value_snoc digit_char)
  qed
qed


lemma py_int_decimal:
  "py_int m (decimal n) = (if within_limit m (decimal n) then Inr (int n) else Inl ValueError)"
  by (simp add: py_int_digits [OF digits_decimal] dec_value_decimal)


text \<open>Every group of digits is a decimal numeral after leading zeros.\<close>

lemma is_digit_digit_char: "is_digit c \<Longrightarrow> \<exists>d<10. c = digit_char d"
proof -
  assume c: "is_digit c"
  define d where "d = (of_char c :: nat) - 48"
  from c have "d < 10" "of_char c = 48 + d"
    by (auto simp: d_def is_digit_def Let_def)
  then have "c = digit_char d"
    by (metis char_of_char digit_char_def)
  with \<open>d < 10\<close> show ?thesis by blast
qed

lemma digits_zeros_decimal:
  "digits s \<Longrightarrow> \<exists>z n. s = replicate z CHR ''0'' @ decimal n"
proof (induction s rule: rev_induct)
  case Nil
  then show ?case by (simp add: digits_def)
next
  case (snoc c s)
  from snoc.prems have c: "is_digit c" by (simp add: digits_def)
  from is_digit_digit_char [OF c] obtain d where d: "d < 10" "c = digit_char d" by blast
  show ?case
  proof (cases "s = []")
    case True
    with d have "s @ [c] = replicate 0 CHR ''0'' @ decimal d"
      by (simp add: decimal.simps [of d])
    then show ?thesis by blast
  next
    case False
    with snoc.prems have "digits s" by (simp add: digits_def)
    from snoc.IH [OF this] obtain z n where s: "s = replicate z CHR ''0'' @ decimal n"
      by blast
    show ?thesis
    proof (cases "n = 0")
      case True
      have "decimal 0 = ''0''" by (simp add: decimal.simps [of 0] digit_char_eq)
      with s True d have "s @ [c] = replicate (Suc z) CHR ''0'' @ decimal d"
        by (simp add: decimal.simps [of d] replicate_append_same)
      then show ?thesis by blast
    next
      case False
      with d have "decimal (10 * n + d) = decimal n @ [c]"
        by (simp add: decimal.simps [of "10 * n + d"])
      with s have "s @ [c] = replicate z CHR ''0'' @ decimal (10 * n + d)" by simp
      then show ?thesis by blast
    qed
  qed
qed

section \<open>The vcpu count of a session\<close>













end
